theory Spec2Isabelle
  imports Complex_Main "HOL-Library.Word"
begin

unbundle bit_operations_syntax

section \<open>Python values and exceptions\<close>

text \<open>
  The repository is Python. Its floats are modelled as exact reals (rounding is not
  modelled), its ints as \<open>int\<close>, its strings as \<open>string\<close> (ASCII text, one \<open>char\<close> per
  code point) and every exception the code can raise as a value: a function that may
  raise returns \<open>py_exception + 'a\<close>, with \<open>Inl\<close> the exception.
\<close>

datatype exc_kind =
    UnboundLocalError | KeyError | TypeError | AttributeError | IndexError
  | ValueError | JSONDecodeError | ServiceError

text \<open>An exception object: its class and the message that \<open>str(e)\<close> returns.\<close>

datatype py_exception = Exc exc_kind string

fun str_exc :: "py_exception \<Rightarrow> string" where
  "str_exc (Exc k msg) = msg"

section \<open>Cost manager (src/src/cost\_manager.py)\<close>

text \<open>
  \<open>CostManager.__init__\<close>: the pricing table is a dict that no method updates, so it is a
  constant; the two counters are the state.
\<close>

definition pricing :: "string \<rightharpoonup> real" where
  "pricing = [''built_in_ai'' \<mapsto> 6, ''byok'' \<mapsto> 2, ''free_tier_limit'' \<mapsto> 50]"

record cost_manager =
  current_session_cost :: real
  articles_processed :: int

definition init_cost_manager :: cost_manager where
  "init_cost_manager = \<lparr>current_session_cost = 0, articles_processed = 0\<rparr>"

text \<open>\<open>self.pricing[k]\<close>: a missing key raises KeyError.\<close>

definition pricing_at :: "string \<Rightarrow> py_exception + real" where
  "pricing_at k = (case pricing k of None \<Rightarrow> Inl (Exc KeyError k) | Some v \<Rightarrow> Inr v)"

text \<open>
  The \<open>description\<close> f-strings, kept as the template and the values interpolated into it.
\<close>

datatype description =
    Basic_description
  | Byok_description
  | Free_description int real
  | Built_in_description real real

record pricing_decision =
  tier :: string
  description :: description
  cost_per_article :: real
  cost_per_1000 :: real
  total_cost :: real
  articles_count :: int
  currency :: string

text \<open>The truth value of \<open>user_api_key: Optional[str]\<close>: None and the empty string are false.\<close>

fun key_given :: "string option \<Rightarrow> bool" where
  "key_given None = False"
| "key_given (Some k) = (k \<noteq> [])"

text \<open>
  The branches of \<open>calculate_pricing_tier\<close> (lines 29-57) assign the locals
  \<open>tier\<close>, \<open>description\<close>, \<open>total_cost\<close> and, in every branch but the free one,
  \<open>cost_per_article\<close>: the local is \<open>None\<close> here where Python leaves it unbound.
\<close>

definition pricing_branch ::
  "bool \<Rightarrow> string option \<Rightarrow> int \<Rightarrow>
     py_exception + (string \<times> description \<times> real option \<times> real)" where
  "pricing_branch enable_ai user_api_key n =
     (if \<not> enable_ai then
        Inr (''basic'', Basic_description, Some (1 / 1000), real_of_int n * (1 / 1000))
      else if key_given user_api_key then
        (case pricing_at ''byok'' of Inl e \<Rightarrow> Inl e
         | Inr byok \<Rightarrow>
             Inr (''byok'', Byok_description, Some (byok / 1000), real_of_int n * (byok / 1000)))
      else
        (case pricing_at ''free_tier_limit'' of Inl e \<Rightarrow> Inl e
         | Inr free_tier_limit \<Rightarrow>
             if real_of_int n \<le> free_tier_limit then
               Inr (''free'', Free_description n free_tier_limit, None, 0)
             else
               (let free_articles = free_tier_limit;
                    paid_articles = real_of_int n - free_articles
                in case pricing_at ''built_in_ai'' of Inl e \<Rightarrow> Inl e
                   | Inr built_in \<Rightarrow>
                       Inr (''built_in_ai'', Built_in_description free_articles paid_articles,
                            Some (built_in / 1000), paid_articles * (built_in / 1000)))))"

text \<open>
  The returned dict (lines 59-67). \<open>cost_per_article\<close> is guarded by
  \<open>'cost_per_article' in locals()\<close>; \<open>cost_per_1000\<close> reads the local unguarded whenever
  \<open>tier\<close> is not a key of the pricing table, which raises UnboundLocalError if the local
  was never assigned.
\<close>

definition calculate_pricing_tier ::
  "bool \<Rightarrow> string option \<Rightarrow> int \<Rightarrow> py_exception + pricing_decision" where
  "calculate_pricing_tier enable_ai user_api_key n =
     (case pricing_branch enable_ai user_api_key n of
        Inl e \<Rightarrow> Inl e
      | Inr (t, d, cpa, cost) \<Rightarrow>
          (case (case pricing t of
                   Some v \<Rightarrow> Inr v
                 | None \<Rightarrow>
                     (case cpa of
                        Some c \<Rightarrow> Inr (c * 1000)
                      | None \<Rightarrow> Inl (Exc UnboundLocalError ''cost_per_article''))) of
             Inl e \<Rightarrow> Inl e
           | Inr per_1000 \<Rightarrow>
               Inr \<lparr>tier = t, description = d,
                    cost_per_article = (case cpa of Some c \<Rightarrow> c | None \<Rightarrow> 0),
                    cost_per_1000 = per_1000, total_cost = cost,
                    articles_count = n, currency = ''USD''\<rparr>))"

text \<open>\<open>int(x)\<close> on a float truncates towards zero.\<close>

definition py_int :: "real \<Rightarrow> int" where
  "py_int x = (if 0 \<le> x then \<lfloor>x\<rfloor> else \<lceil>x\<rceil>)"

record limits_info =
  daily_limit :: real
  current_spend :: real
  remaining_budget :: real
  articles_remaining :: int
  limit_exceeded :: bool

text \<open>
  \<open>check_daily_limits\<close>: the limit is read from the environment variable
  \<open>DAILY_SPEND_LIMIT\<close> (default 50.0); the parsed value is the parameter \<open>limit\<close>.
\<close>

definition check_daily_limits :: "cost_manager \<Rightarrow> real \<Rightarrow> py_exception + limits_info" where
  "check_daily_limits self limit =
     (let current_daily_spend = current_session_cost self;
          remaining = max 0 (limit - current_daily_spend)
      in case pricing_at ''built_in_ai'' of Inl e \<Rightarrow> Inl e
         | Inr built_in \<Rightarrow>
             Inr \<lparr>daily_limit = limit, current_spend = current_daily_spend,
                  remaining_budget = remaining,
                  articles_remaining = py_int (remaining / (built_in / 1000)),
                  limit_exceeded = (current_daily_spend \<ge> limit)\<rparr>)"

text \<open>The two error messages of \<open>validate_request\<close>, as template and interpolated values.\<close>

datatype validation_error =
    Daily_limit_exceeded real real
  | Exceeds_remaining_budget int int

text \<open>
  The dict \<open>validate_request\<close> returns; a key that a branch leaves out is \<open>None\<close>.
  The key \<open>"pricing"\<close> is the field \<open>pricing_info\<close>, after the local it is filled from.
\<close>

record validation =
  valid :: bool
  error :: "validation_error option"
  pricing_info :: pricing_decision
  limits :: "limits_info option"
  suggested_max_articles :: "int option"
  estimated_cost :: "real option"

definition validate_request ::
  "cost_manager \<Rightarrow> real \<Rightarrow> bool \<Rightarrow> string option \<Rightarrow> int \<Rightarrow> py_exception + validation" where
  "validate_request self limit enable_ai user_api_key max_articles =
     (case calculate_pricing_tier enable_ai user_api_key max_articles of
        Inl e \<Rightarrow> Inl e
      | Inr p \<Rightarrow>
          let ok = \<lparr>valid = True, error = None, pricing_info = p, limits = None,
                    suggested_max_articles = None, estimated_cost = Some (total_cost p)\<rparr>
          in if tier p = ''built_in_ai'' then
               (case check_daily_limits self limit of
                  Inl e \<Rightarrow> Inl e
                | Inr l \<Rightarrow>
                    if limit_exceeded l then
                      Inr \<lparr>valid = False,
                           error = Some (Daily_limit_exceeded (daily_limit l) (current_spend l)),
                           pricing_info = p, limits = Some l,
                           suggested_max_articles = None, estimated_cost = None\<rparr>
                    else if max_articles > articles_remaining l then
                      (let suggested_articles = articles_remaining l
                       in Inr \<lparr>valid = False,
                               error = Some (Exceeds_remaining_budget max_articles suggested_articles),
                               pricing_info = p, limits = Some l,
                               suggested_max_articles = Some suggested_articles,
                               estimated_cost = None\<rparr>)
                    else Inr ok)
             else Inr ok)"

text \<open>\<open>track_usage\<close>: the only writer of the two counters.\<close>

definition track_usage :: "cost_manager \<Rightarrow> int \<Rightarrow> real \<Rightarrow> cost_manager" where
  "track_usage self n actual_cost =
     self\<lparr>articles_processed := articles_processed self + n,
          current_session_cost := current_session_cost self + actual_cost\<rparr>"

section \<open>Python values and text\<close>

text \<open>
  The values that articles, parsed JSON and analysis records hold. A dict is a map from
  its string keys; ints and floats are both \<open>PNum\<close>.
\<close>

datatype pyval =
    PNone
  | PBool bool
  | PNum real
  | PStr string
  | PList "pyval list"
  | PDict "string \<Rightarrow> pyval option"

type_synonym dict = "string \<Rightarrow> pyval option"

text \<open>Truth value of a value, as \<open>if not content\<close> tests it.\<close>

fun truthy :: "pyval \<Rightarrow> bool" where
  "truthy PNone = False"
| "truthy (PBool b) = b"
| "truthy (PNum x) = (x \<noteq> 0)"
| "truthy (PStr s) = (s \<noteq> [])"
| "truthy (PList xs) = (xs \<noteq> [])"
| "truthy (PDict d) = (d \<noteq> Map.empty)"

text \<open>\<open>d.get(k, default)\<close>.\<close>

definition dict_get :: "dict \<Rightarrow> string \<Rightarrow> pyval \<Rightarrow> pyval" where
  "dict_get d k dflt = (case d k of None \<Rightarrow> dflt | Some v \<Rightarrow> v)"

text \<open>
  A value used as a number by \<open>+\<close> and \<open>abs\<close>: floats, ints and bools (True is 1) are
  numbers, anything else raises TypeError.
\<close>

fun as_number :: "pyval \<Rightarrow> py_exception + real" where
  "as_number (PNum x) = Inr x"
| "as_number (PBool b) = Inr (if b then 1 else 0)"
| "as_number v = Inl (Exc TypeError ''bad operand type'')"

definition nl :: char where
  "nl = CHR 0x0A"

definition dq :: string where
  "dq = [CHR 0x22]"

text \<open>\<open>sep.join(xs)\<close>.\<close>

fun py_join :: "string \<Rightarrow> string list \<Rightarrow> string" where
  "py_join sep [] = []"
| "py_join sep [x] = x"
| "py_join sep (x # y # ys) = x @ sep @ py_join sep (y # ys)"

text \<open>The ASCII characters for which \<open>str.isspace\<close> holds.\<close>

definition is_space :: "char \<Rightarrow> bool" where
  "is_space c = (of_char c \<in> {9, 10, 11, 12, 13, 28, 29, 30, 31, 32 :: nat})"

text \<open>\<open>s.strip()\<close>.\<close>

definition strip :: "string \<Rightarrow> string" where
  "strip s = rev (dropWhile is_space (rev (dropWhile is_space s)))"

text \<open>\<open>s.split()\<close>: the maximal runs of characters that are not whitespace.\<close>

fun split_from :: "string \<Rightarrow> string \<Rightarrow> string list" where
  "split_from word [] = (if word = [] then [] else [rev word])"
| "split_from word (c # cs) =
     (if is_space c then (if word = [] then split_from [] cs else rev word # split_from [] cs)
      else split_from (c # word) cs)"

definition py_split :: "string \<Rightarrow> string list" where
  "py_split s = split_from [] s"

text \<open>\<open>s.lower()\<close> on ASCII text.\<close>

definition lower_char :: "char \<Rightarrow> char" where
  "lower_char c =
     (let n = of_char c :: nat in if 65 \<le> n \<and> n \<le> 90 then char_of (n + 32) else c)"

definition py_lower :: "string \<Rightarrow> string" where
  "py_lower s = map lower_char s"

text \<open>\<open>sub in s\<close> on strings: \<open>sub\<close> occurs in \<open>s\<close> as a contiguous substring.\<close>

fun contains :: "string \<Rightarrow> string \<Rightarrow> bool" where
  "contains sub [] = (sub = [])"
| "contains sub (c # cs) = (take (length sub) (c # cs) = sub \<or> contains sub cs)"

text \<open>\<open>str(n)\<close> for a natural number.\<close>

fun str_nat :: "nat \<Rightarrow> string" where
  "str_nat n =
     (if n < 10 then [char_of (48 + n)] else str_nat (n div 10) @ [char_of (48 + n mod 10)])"

text \<open>
  \<open>re.search(r'\{.*\}', text, re.DOTALL)\<close>: the match runs from the first opening brace
  to the last closing brace after it, and there is none when no closing brace follows
  the first opening one.
\<close>

definition json_match :: "string \<Rightarrow> string option" where
  "json_match s =
     (let t = dropWhile (\<lambda>c. c \<noteq> CHR ''{'') s
      in if CHR ''}'' \<in> set t then Some (rev (dropWhile (\<lambda>c. c \<noteq> CHR ''}'') (rev t)))
         else None)"

section \<open>SHA-256 (\<open>hashlib.sha256(...).hexdigest()\<close>)\<close>

text \<open>
  The round constants (the first 32 bits of the fractional parts of the cube roots of the
  first 64 primes) and the initial hash value (likewise from the square roots of the first
  8 primes), as decimal numerals.
\<close>

definition sha256_k :: "32 word list" where
  "sha256_k =
    [1116352408, 1899447441, 3049323471, 3921009573, 961987163, 1508970993,
     2453635748, 2870763221, 3624381080, 310598401, 607225278, 1426881987,
     1925078388, 2162078206, 2614888103, 3248222580, 3835390401, 4022224774,
     264347078, 604807628, 770255983, 1249150122, 1555081692, 1996064986,
     2554220882, 2821834349, 2952996808, 3210313671, 3336571891, 3584528711,
     113926993, 338241895, 666307205, 773529912, 1294757372, 1396182291,
     1695183700, 1986661051, 2177026350, 2456956037, 2730485921, 2820302411,
     3259730800, 3345764771, 3516065817, 3600352804, 4094571909, 275423344,
     430227734, 506948616, 659060556, 883997877, 958139571, 1322822218,
     1537002063, 1747873779, 1955562222, 2024104815, 2227730452, 2361852424,
     2428436474, 2756734187, 3204031479, 3329325298]"

definition sha256_h0 :: "32 word list" where
  "sha256_h0 =
    [1779033703, 3144134277, 1013904242, 2773480762, 1359893119, 2600822924, 528734635, 1541459225]"

definition be_bytes :: "nat \<Rightarrow> nat \<Rightarrow> nat list" where
  "be_bytes k n = map (\<lambda>i. (n div 256 ^ (k - 1 - i)) mod 256) [0..<k]"

definition sha256_pad :: "nat list \<Rightarrow> nat list" where
  "sha256_pad msg =
     msg @ [128] @ replicate ((119 - length msg mod 64) mod 64) 0 @ be_bytes 8 (8 * length msg)"

fun be_words :: "nat list \<Rightarrow> 32 word list" where
  "be_words (a # b # c # d # rest) =
     of_nat (((a * 256 + b) * 256 + c) * 256 + d) # be_words rest"
| "be_words _ = []"

fun sha256_blocks :: "'a list \<Rightarrow> 'a list list" where
  "sha256_blocks xs = (if xs = [] then [] else take 64 xs # sha256_blocks (drop 64 xs))"

definition small_sigma0 :: "32 word \<Rightarrow> 32 word" where
  "small_sigma0 x = word_rotr 7 x XOR word_rotr 18 x XOR drop_bit 3 x"

definition small_sigma1 :: "32 word \<Rightarrow> 32 word" where
  "small_sigma1 x = word_rotr 17 x XOR word_rotr 19 x XOR drop_bit 10 x"

definition big_sigma0 :: "32 word \<Rightarrow> 32 word" where
  "big_sigma0 x = word_rotr 2 x XOR word_rotr 13 x XOR word_rotr 22 x"

definition big_sigma1 :: "32 word \<Rightarrow> 32 word" where
  "big_sigma1 x = word_rotr 6 x XOR word_rotr 11 x XOR word_rotr 25 x"

fun sha256_schedule :: "nat \<Rightarrow> 32 word list \<Rightarrow> 32 word list" where
  "sha256_schedule 0 w = w"
| "sha256_schedule (Suc n) w =
     (let j = length w
      in sha256_schedule n
           (w @ [w ! (j - 16) + small_sigma0 (w ! (j - 15)) + w ! (j - 7)
                   + small_sigma1 (w ! (j - 2))]))"

fun sha256_round :: "32 word list \<Rightarrow> 32 word \<times> 32 word \<Rightarrow> 32 word list" where
  "sha256_round [a, b, c, d, e, f, g, h] (k, w) =
     (let t1 = h + big_sigma1 e + ((e AND f) XOR (NOT e AND g)) + k + w;
          t2 = big_sigma0 a + ((a AND b) XOR (a AND c) XOR (b AND c))
      in [t1 + t2, a, b, c, d + t1, e, f, g])"
| "sha256_round s _ = s"

definition sha256_compress :: "32 word list \<Rightarrow> nat list \<Rightarrow> 32 word list" where
  "sha256_compress h block =
     map2 (+) h (foldl sha256_round h (zip sha256_k (sha256_schedule 48 (be_words block))))"

definition hex_digit :: "nat \<Rightarrow> char" where
  "hex_digit n = (if n < 10 then char_of (48 + n) else char_of (87 + n))"

definition hex_word :: "32 word \<Rightarrow> string" where
  "hex_word w = map (\<lambda>i. hex_digit ((unat w div 16 ^ (7 - i)) mod 16)) [0..<8]"

text \<open>The digest, as eight 32-bit words, and its print of 64 hexadecimal digits.\<close>

definition sha256_digest :: "string \<Rightarrow> 32 word list" where
  "sha256_digest s =
     foldl sha256_compress sha256_h0 (sha256_blocks (sha256_pad (map of_char s)))"

definition sha256_hexdigest :: "string \<Rightarrow> string" where
  "sha256_hexdigest s = concat (map hex_word (sha256_digest s))"

section \<open>The external services and libraries\<close>

text \<open>
  What the analyzer calls outside the repository is a parameter of the model. The two
  OpenAI endpoints may raise. So may the tokenizer (\<open>tiktoken\<close>'s \<open>encode\<close> raises ValueError
  on a text that contains one of its special tokens) and \<open>json.loads\<close>; both are functions
  of their argument.
\<close>

record moderation_entry =
  result_flagged :: bool
  result_categories :: "dict option"
  result_category_scores :: "dict option"

record completion_request =
  rq_model :: string
  rq_prompt :: string
  rq_max_tokens :: nat
  rq_temperature :: real

text \<open>
  A completion response: \<open>usage.completion_tokens\<close> (None when \<open>usage\<close> is missing) and the
  \<open>message.content\<close> of each choice (None when the content is None).
\<close>

record completion_response =
  usage :: "nat option"
  choices :: "string option list"

record world =
  moderations_create :: "string \<Rightarrow> py_exception + moderation_entry list"
  chat_completions_create :: "completion_request \<Rightarrow> py_exception + completion_response"
  encode :: "string \<Rightarrow> py_exception + nat list"
  decode :: "nat list \<Rightarrow> string"
  json_loads :: "string \<Rightarrow> py_exception + pyval"
  now_isoformat :: string

text \<open>The calls a sub-task makes to the two endpoints, in order.\<close>

datatype event = Moderation_call string | Completion_call completion_request

section \<open>AI analyzer (src/src/ai\_analyzer.py)\<close>

record analyzer =
  model :: string
  max_tokens :: nat

text \<open>\<open>self.pricing\<close> of the analyzer: price per 1000 input and output tokens by model.\<close>

definition model_pricing :: "string \<Rightarrow> (real \<times> real) option" where
  "model_pricing =
     [''gpt-3.5-turbo'' \<mapsto> (5 / 10000, 15 / 10000),
      ''gpt-4'' \<mapsto> (1 / 100, 3 / 100),
      ''gpt-4-turbo'' \<mapsto> (1 / 100, 3 / 100)]"

definition count_tokens :: "world \<Rightarrow> string \<Rightarrow> py_exception + nat" where
  "count_tokens w text =
     (case encode w text of Inl e \<Rightarrow> Inl e | Inr tokens \<Rightarrow> Inr (length tokens))"

definition calculate_cost :: "analyzer \<Rightarrow> nat \<Rightarrow> nat \<Rightarrow> real" where
  "calculate_cost self input_tokens output_tokens =
     (case model_pricing (model self) of
        None \<Rightarrow> 0
      | Some (input_price, output_price) \<Rightarrow>
          (real input_tokens / 1000) * input_price + (real output_tokens / 1000) * output_price)"

definition truncate_text :: "world \<Rightarrow> string \<Rightarrow> nat \<Rightarrow> py_exception + string" where
  "truncate_text w text limit =
     (case encode w text of
        Inl e \<Rightarrow> Inl e
      | Inr tokens \<Rightarrow>
          Inr (if length tokens \<le> limit then text else decode w (take limit tokens)))"

text \<open>
  The dict \<open>moderate_content\<close> returns. Any exception of the moderation call, and the
  IndexError of \<open>results[0]\<close> on an empty result list, is caught and gives "not flagged".
\<close>

record moderation =
  flagged :: bool
  categories :: dict
  category_scores :: dict

definition moderate_content :: "world \<Rightarrow> string \<Rightarrow> moderation" where
  "moderate_content w text =
     (case moderations_create w text of
        Inl e \<Rightarrow> \<lparr>flagged = False, categories = Map.empty, category_scores = Map.empty\<rparr>
      | Inr [] \<Rightarrow> \<lparr>flagged = False, categories = Map.empty, category_scores = Map.empty\<rparr>
      | Inr (result # rest) \<Rightarrow>
          \<lparr>flagged = result_flagged result,
           categories = (case result_categories result of Some c \<Rightarrow> c | None \<Rightarrow> Map.empty),
           category_scores =
             (case result_category_scores result of Some c \<Rightarrow> c | None \<Rightarrow> Map.empty)\<rparr>)"

text \<open>
  What the three sub-tasks do with the completion response (lines 104-117, 167-180 and
  228-240): compute the cost, take the first choice's stripped text, find the JSON block
  and parse it. Every way it can raise is an \<open>Inl\<close>.
\<close>

definition parse_response ::
  "world \<Rightarrow> analyzer \<Rightarrow> nat \<Rightarrow> completion_response \<Rightarrow> py_exception + (dict \<times> real)" where
  "parse_response w self input_tokens response =
     (let output_tokens = (case usage response of Some n \<Rightarrow> n | None \<Rightarrow> 0);
          cost = calculate_cost self input_tokens output_tokens
      in case choices response of
           [] \<Rightarrow> Inl (Exc IndexError ''list index out of range'')
         | None # rest \<Rightarrow> Inl (Exc AttributeError ''NoneType has no attribute strip'')
         | Some content # rest \<Rightarrow>
             (case json_match (strip content) of
                None \<Rightarrow> Inl (Exc ValueError ''No valid JSON found in response'')
              | Some block \<Rightarrow>
                  (case json_loads w block of
                     Inl e \<Rightarrow> Inl e
                   | Inr (PDict d) \<Rightarrow> Inr (d, cost)
                   | Inr v \<Rightarrow> Inl (Exc TypeError ''object does not support item assignment''))))"

text \<open>
  The body of the \<open>try\<close> block that the three sub-tasks share (lines 95-117, 158-180 and
  219-240), with the calls it makes: count the prompt's tokens, call the completion
  endpoint, then handle the response. When counting raises, the endpoint is not called.
\<close>

definition completion_json ::
  "world \<Rightarrow> analyzer \<Rightarrow> completion_request \<Rightarrow>
     (py_exception + (dict \<times> real)) \<times> event list" where
  "completion_json w self rq =
     (case count_tokens w (rq_prompt rq) of
        Inl e \<Rightarrow> (Inl e, [])
      | Inr input_tokens \<Rightarrow>
          (case chat_completions_create w rq of
             Inl e \<Rightarrow> Inl e
           | Inr response \<Rightarrow> parse_response w self input_tokens response,
           [Completion_call rq]))"

subsection \<open>Sentiment\<close>

definition sentiment_prompt :: "string \<Rightarrow> string" where
  "sentiment_prompt text =
     py_join [nl]
       [''Analyze the sentiment of this news article text. Provide your analysis in JSON format:'',
        '''',
        ''Text: '' @ dq @ text @ dq,
        '''',
        ''Return JSON with:'',
        ''- score: float between -1.0 (very negative) and 1.0 (very positive)'',
        ''- label: '' @ dq @ ''positive'' @ dq @ '', '' @ dq @ ''negative'' @ dq @ '', or ''
           @ dq @ ''neutral'' @ dq,
        ''- confidence: float between 0.0 and 1.0'',
        ''- reasoning: brief explanation of the sentiment'',
        '''',
        ''JSON:'']"

text \<open>The completion request, from the truncated text.\<close>

definition sentiment_request :: "analyzer \<Rightarrow> string \<Rightarrow> completion_request" where
  "sentiment_request self truncated =
     \<lparr>rq_model = model self, rq_prompt = sentiment_prompt truncated,
      rq_max_tokens = 200, rq_temperature = 1 / 10\<rparr>"

text \<open>The payload returned when moderation flags the text (lines 74-80).\<close>

definition sentiment_flagged :: dict where
  "sentiment_flagged =
     [''score'' \<mapsto> PNum 0, ''label'' \<mapsto> PStr ''neutral'', ''confidence'' \<mapsto> PNum 0,
      ''reasoning'' \<mapsto> PStr ''Content flagged by moderation'',
      ''moderation_flagged'' \<mapsto> PBool True]"

text \<open>The payload of the \<open>except\<close> branch (lines 121-128).\<close>

definition sentiment_fallback :: "py_exception \<Rightarrow> dict" where
  "sentiment_fallback e =
     [''score'' \<mapsto> PNum 0, ''label'' \<mapsto> PStr ''neutral'', ''confidence'' \<mapsto> PNum 0,
      ''reasoning'' \<mapsto> PStr (''Analysis failed: '' @ str_exc e),
      ''cost'' \<mapsto> PNum 0, ''moderation_flagged'' \<mapsto> PBool False]"

text \<open>
  A sub-task gives what its caller receives (\<open>Inl\<close> an exception that escapes, \<open>Inr\<close> the
  returned dict) and the calls it made. The prompt is built, and the text truncated for
  it, before the \<open>try\<close> block is entered (lines 82-92): an exception of the tokenizer there
  escapes.
\<close>

definition analyze_sentiment ::
  "world \<Rightarrow> analyzer \<Rightarrow> string \<Rightarrow> (py_exception + dict) \<times> event list" where
  "analyze_sentiment w self text =
     (let moderation = moderate_content w text
      in if flagged moderation then (Inr sentiment_flagged, [Moderation_call text])
         else
           (case truncate_text w text 2000 of
              Inl e \<Rightarrow> (Inl e, [Moderation_call text])
            | Inr truncated \<Rightarrow>
                (let rq = sentiment_request self truncated;
                     (outcome, calls) = completion_json w self rq
                 in (case outcome of
                       Inr (sentiment_data, cost) \<Rightarrow>
                         Inr (sentiment_data(''cost'' \<mapsto> PNum cost,
                                             ''moderation_flagged'' \<mapsto> PBool False))
                     | Inl e \<Rightarrow> Inr (sentiment_fallback e),
                     Moderation_call text # calls))))"

subsection \<open>Summary\<close>

definition summary_prompt :: "string \<Rightarrow> string \<Rightarrow> string" where
  "summary_prompt title content =
     py_join [nl]
       [''Summarize this news article in 2-3 sentences and extract 3-5 key points. Return JSON format:'',
        '''',
        ''Title: '' @ title,
        '''',
        ''Content: '' @ content,
        '''',
        ''Return JSON with:'',
        ''- summary: 2-3 sentence summary'',
        ''- key_points: array of 3-5 key points (each 1 sentence)'',
        '''',
        ''JSON:'']"

definition summary_request :: "analyzer \<Rightarrow> string \<Rightarrow> string \<Rightarrow> completion_request" where
  "summary_request self title truncated =
     \<lparr>rq_model = model self, rq_prompt = summary_prompt title truncated,
      rq_max_tokens = 300, rq_temperature = 2 / 10\<rparr>"

definition summary_flagged :: dict where
  "summary_flagged =
     [''summary'' \<mapsto> PStr ''Content unavailable due to moderation policies'',
      ''key_points'' \<mapsto> PList [], ''cost'' \<mapsto> PNum 0, ''moderation_flagged'' \<mapsto> PBool True]"

definition summary_fallback :: dict where
  "summary_fallback =
     [''summary'' \<mapsto> PStr ''Summary unavailable'', ''key_points'' \<mapsto> PList [],
      ''cost'' \<mapsto> PNum 0, ''moderation_flagged'' \<mapsto> PBool False]"

text \<open>The text that \<open>summarize_article\<close> moderates: the first 1000 characters.\<close>

definition summary_moderated_text :: "string \<Rightarrow> string \<Rightarrow> string" where
  "summary_moderated_text title content = take 1000 (title @ [nl, nl] @ content)"

definition summarize_article ::
  "world \<Rightarrow> analyzer \<Rightarrow> string \<Rightarrow> string \<Rightarrow> (py_exception + dict) \<times> event list" where
  "summarize_article w self title content =
     (let checked = summary_moderated_text title content;
          moderation = moderate_content w checked
      in if flagged moderation then (Inr summary_flagged, [Moderation_call checked])
         else
           (case truncate_text w content 2500 of
              Inl e \<Rightarrow> (Inl e, [Moderation_call checked])
            | Inr truncated \<Rightarrow>
                (let rq = summary_request self title truncated;
                     (outcome, calls) = completion_json w self rq
                 in (case outcome of
                       Inr (summary_data, cost) \<Rightarrow>
                         Inr (summary_data(''cost'' \<mapsto> PNum cost,
                                           ''moderation_flagged'' \<mapsto> PBool False))
                     | Inl e \<Rightarrow> Inr summary_fallback,
                     Moderation_call checked # calls))))"

subsection \<open>Classification\<close>

definition topic_categories :: "string list" where
  "topic_categories =
     [''Politics'', ''Business'', ''Technology'', ''Healthcare'', ''Sports'',
      ''Entertainment'', ''Science'', ''Environment'', ''Education'', ''Crime'',
      ''International'', ''Economy'', ''Finance'', ''Startup'', ''AI/ML'',
      ''Cybersecurity'', ''Energy'', ''Transportation'', ''Real Estate'']"

definition classification_prompt :: "string \<Rightarrow> string \<Rightarrow> string" where
  "classification_prompt title content =
     py_join [nl]
       [''Classify this news article into relevant categories and extract entities. Return JSON format:'',
        '''',
        ''Title: '' @ title,
        '''',
        ''Content: '' @ content,
        '''',
        ''Available categories: '' @ py_join '', '' topic_categories,
        '''',
        ''Return JSON with:'',
        ''- categories: array of 1-3 most relevant categories from the list above'',
        ''- entities: object with arrays for '' @ dq @ ''people'' @ dq @ '', '' @ dq
           @ ''companies'' @ dq @ '', '' @ dq @ ''locations'' @ dq @ '', '' @ dq @ ''events'' @ dq,
        ''- keywords: array of 5-10 most important keywords/phrases'',
        '''',
        ''JSON:'']"

definition classification_request ::
  "analyzer \<Rightarrow> string \<Rightarrow> string \<Rightarrow> completion_request" where
  "classification_request self title truncated =
     \<lparr>rq_model = model self, rq_prompt = classification_prompt title truncated,
      rq_max_tokens = 400, rq_temperature = 1 / 10\<rparr>"

definition classification_fallback :: dict where
  "classification_fallback =
     [''categories'' \<mapsto> PList [PStr ''General''],
      ''entities'' \<mapsto> PDict [''people'' \<mapsto> PList [], ''companies'' \<mapsto> PList [],
                              ''locations'' \<mapsto> PList [], ''events'' \<mapsto> PList []],
      ''keywords'' \<mapsto> PList [], ''cost'' \<mapsto> PNum 0]"

text \<open>
  \<open>classify_topics\<close> (lines 191-249) builds \<open>full_text\<close> and never uses it: there is no
  moderation call, the prompt is built and the \<open>try\<close> block entered at once.
\<close>

definition classify_topics ::
  "world \<Rightarrow> analyzer \<Rightarrow> string \<Rightarrow> string \<Rightarrow> (py_exception + dict) \<times> event list" where
  "classify_topics w self title content =
     (case truncate_text w content 2000 of
        Inl e \<Rightarrow> (Inl e, [])
      | Inr truncated \<Rightarrow>
          (let rq = classification_request self title truncated;
               (outcome, calls) = completion_json w self rq
           in (case outcome of
                 Inr (classification_data, cost) \<Rightarrow>
                   Inr (classification_data(''cost'' \<mapsto> PNum cost))
               | Inl e \<Rightarrow> Inr classification_fallback,
               calls)))"

subsection \<open>One article\<close>

text \<open>
  Lines 254-258: \<open>title\<close> and the text to analyse. \<open>include_content\<close> picks the body or the
  summary; when the picked value is empty or None, the title takes its place.
\<close>

definition chosen_texts :: "dict \<Rightarrow> bool \<Rightarrow> pyval \<times> pyval" where
  "chosen_texts article include_content =
     (let title = dict_get article ''title'' (PStr '''');
          content = (if include_content then dict_get article ''content'' (PStr '''')
                     else dict_get article ''summary'' (PStr ''''))
      in (title, if \<not> truthy content then title else content))"

text \<open>
  The choice as the specification words it: the full body when \<open>include_content\<close> holds
  and the body is non-empty, else the summary, else the title.
\<close>

definition specified_input_text :: "dict \<Rightarrow> bool \<Rightarrow> pyval" where
  "specified_input_text article include_content =
     (let title = dict_get article ''title'' (PStr '''');
          body = dict_get article ''content'' (PStr '''');
          summary = dict_get article ''summary'' (PStr '''')
      in if include_content \<and> truthy body then body
         else if truthy summary then summary
         else title)"

text \<open>Lines 261-262: the identifier is the first 16 hex digits of SHA-256 of the two texts joined.\<close>

definition article_text :: "string \<Rightarrow> string \<Rightarrow> string" where
  "article_text title content = title @ content"

definition article_id :: "string \<Rightarrow> string \<Rightarrow> string" where
  "article_id title content = take 16 (sha256_hexdigest (article_text title content))"

text \<open>Lines 291-295 and 303.\<close>

definition trending_score :: "string \<Rightarrow> real \<Rightarrow> real" where
  "trending_score title score =
     (let base = 5 / 10;
          with_title = (if contains ''breaking'' (py_lower title)
                           \<or> contains ''urgent'' (py_lower title)
                        then base + 3 / 10 else base);
          with_sentiment = (if \<bar>score\<bar> > 7 / 10 then with_title + 2 / 10 else with_title)
      in min with_sentiment 1)"

definition reading_time :: "string \<Rightarrow> string" where
  "reading_time content =
     (if content \<noteq> [] then str_nat (max 1 (length (py_split content) div 200)) @ '' minutes''
      else ''< 1 minute'')"

text \<open>
  \<open>analyze_article\<close>. The title and the chosen text are strings in every article the
  aggregator builds; on any other value the code raises (\<open>len\<close>, the tokenizer, \<open>lower\<close> or
  \<open>split\<close> rejects it, as TypeError or AttributeError), which is one branch here. An
  exception of a sub-task passes through \<open>asyncio.gather\<close> to the caller; when several
  sub-tasks raise, the first in the order of the task list is reported here.
\<close>

definition analyze_article ::
  "world \<Rightarrow> analyzer \<Rightarrow> dict \<Rightarrow> bool \<Rightarrow> py_exception + dict" where
  "analyze_article w self article include_content =
     (case chosen_texts article include_content of
        (PStr title, PStr content) \<Rightarrow>
          (case fst (analyze_sentiment w self (title @ [nl] @ content)) of
             Inl e \<Rightarrow> Inl e
           | Inr sentiment \<Rightarrow>
          (case fst (classify_topics w self title content) of
             Inl e \<Rightarrow> Inl e
           | Inr classification \<Rightarrow>
          (case (if length content > 200 then fst (summarize_article w self title content)
                 else Inr [''summary'' \<mapsto> dict_get article ''summary'' (PStr title),
                           ''key_points'' \<mapsto> PList [], ''cost'' \<mapsto> PNum 0,
                           ''moderation_flagged'' \<mapsto> PBool False]) of
             Inl e \<Rightarrow> Inl e
           | Inr summarization \<Rightarrow>
          (case (as_number (dict_get sentiment ''cost'' (PNum 0)),
                 as_number (dict_get classification ''cost'' (PNum 0)),
                 as_number (dict_get summarization ''cost'' (PNum 0))) of
             (Inr c1, Inr c2, Inr c3) \<Rightarrow>
               (case as_number (dict_get sentiment ''score'' (PNum 0)) of
                  Inl e \<Rightarrow> Inl e
                | Inr score \<Rightarrow>
                    Inr [''article_id'' \<mapsto> PStr (article_id title content),
                         ''analyzed_at'' \<mapsto> PStr (now_isoformat w),
                         ''sentiment'' \<mapsto> PDict sentiment,
                         ''classification'' \<mapsto> PDict classification,
                         ''summarization'' \<mapsto> PDict summarization,
                         ''trending_score'' \<mapsto> PNum (trending_score title score),
                         ''total_cost'' \<mapsto> PNum (c1 + c2 + c3),
                         ''word_count'' \<mapsto> PNum (real (length (py_split content))),
                         ''reading_time'' \<mapsto> PStr (reading_time content)])
           | other \<Rightarrow> Inl (Exc TypeError ''unsupported operand type'')))))
      | other \<Rightarrow> Inl (Exc TypeError ''text field is not a string''))"

subsection \<open>The batch\<close>

text \<open>
  \<open>analyze_with_limit\<close> (lines 321-334): the article with the key \<open>analysis\<close> set, to the
  analysis or, when \<open>analyze_article\<close> raised, to the error record. Articles are values
  here: the list is taken to hold separate dict objects, as the aggregator builds them.
\<close>

definition error_analysis :: "world \<Rightarrow> py_exception \<Rightarrow> dict" where
  "error_analysis w e =
     [''error'' \<mapsto> PStr (str_exc e), ''total_cost'' \<mapsto> PNum 0,
      ''analyzed_at'' \<mapsto> PStr (now_isoformat w)]"

definition analyze_with_limit ::
  "world \<Rightarrow> analyzer \<Rightarrow> bool \<Rightarrow> dict \<Rightarrow> py_exception + dict" where
  "analyze_with_limit w self include_content article =
     (case analyze_article w self article include_content of
        Inr analysis \<Rightarrow> Inr (article(''analysis'' \<mapsto> PDict analysis))
      | Inl e \<Rightarrow> Inr (article(''analysis'' \<mapsto> PDict (error_analysis w e))))"

text \<open>What \<open>analyze_with_limit\<close> stores under the key \<open>analysis\<close>.\<close>

definition attached_analysis :: "world \<Rightarrow> analyzer \<Rightarrow> bool \<Rightarrow> dict \<Rightarrow> dict" where
  "attached_analysis w self include_content article =
     (case analyze_article w self article include_content of
        Inr analysis \<Rightarrow> analysis
      | Inl e \<Rightarrow> error_analysis w e)"

text \<open>
  \<open>batch_analyze\<close> (lines 311-346). \<open>asyncio.gather(..., return_exceptions=True)\<close> gives one
  entry per task, in the order of the list, and the exceptions among them are filtered
  out. The semaphore decides only whether the tasks run: a negative \<open>max_concurrent\<close>
  makes its constructor raise ValueError, and with 0 permits no task is ever admitted, so
  a non-empty batch never returns (\<open>None\<close>).
\<close>

definition batch_analyze ::
  "world \<Rightarrow> analyzer \<Rightarrow> dict list \<Rightarrow> int \<Rightarrow> bool \<Rightarrow> (py_exception + dict list) option" where
  "batch_analyze w self articles max_concurrent include_content =
     (if max_concurrent < 0 then
        Some (Inl (Exc ValueError ''Semaphore initial value must be >= 0''))
      else if max_concurrent = 0 \<and> articles \<noteq> [] then None
      else
        (let analyzed_articles = map (analyze_with_limit w self include_content) articles
         in Some (Inr [article. Inr article \<leftarrow> analyzed_articles])))"

text \<open>A returned record carries the error marker when its analysis has the key \<open>error\<close>.\<close>

definition error_marked :: "dict \<Rightarrow> bool" where
  "error_marked record =
     (case record ''analysis'' of Some (PDict a) \<Rightarrow> a ''error'' \<noteq> None | other \<Rightarrow> False)"

text \<open>The nine keys of a complete analysis (lines 297-307).\<close>

definition analysis_keys :: "string list" where
  "analysis_keys =
     [''article_id'', ''analyzed_at'', ''sentiment'', ''classification'', ''summarization'',
      ''trending_score'', ''total_cost'', ''word_count'', ''reading_time'']"

definition complete_analysis :: "dict \<Rightarrow> bool" where
  "complete_analysis record =
     (case record ''analysis'' of
        Some (PDict a) \<Rightarrow> list_all (\<lambda>k. a k \<noteq> None) analysis_keys \<and> a ''error'' = None
      | other \<Rightarrow> False)"

section \<open>Example worlds\<close>

text \<open>
  Concrete services for the examples: a tokenizer with one token per character, and
  endpoints that always fail, always flag, or always answer with a JSON object.
\<close>

definition example_analyzer :: analyzer where
  "example_analyzer = \<lparr>model = ''gpt-3.5-turbo'', max_tokens = 1000\<rparr>"

definition unflagged_entry :: moderation_entry where
  "unflagged_entry =
     \<lparr>result_flagged = False, result_categories = None, result_category_scores = None\<rparr>"

text \<open>Moderation passes everything, every completion call times out.\<close>

definition failing_world :: world where
  "failing_world =
     \<lparr>moderations_create = (\<lambda>text. Inr [unflagged_entry]),
      chat_completions_create = (\<lambda>rq. Inl (Exc ServiceError ''Request timed out'')),
      encode = (\<lambda>s. Inr (map of_char s)),
      decode = map char_of,
      json_loads = (\<lambda>s. Inl (Exc JSONDecodeError ''Expecting value'')),
      now_isoformat = ''2025-01-01T00:00:00''\<rparr>"

text \<open>Every completion call answers with a JSON object that gives a strong sentiment.\<close>

definition answering_world :: world where
  "answering_world =
     failing_world
       \<lparr>chat_completions_create :=
          (\<lambda>rq. Inr \<lparr>usage = Some 40, choices = [Some ''Here you go: {...} ''] \<rparr>),
        json_loads :=
          (\<lambda>s. Inr (PDict [''score'' \<mapsto> PNum (9 / 10), ''label'' \<mapsto> PStr ''positive'']))\<rparr>"

text \<open>As \<open>answering_world\<close>, but moderation flags every text.\<close>

definition flagging_world :: world where
  "flagging_world =
     answering_world
       \<lparr>moderations_create := (\<lambda>text. Inr [unflagged_entry\<lparr>result_flagged := True\<rparr>])\<rparr>"

text \<open>
  As \<open>answering_world\<close>, with a tokenizer that, like \<open>tiktoken\<close>'s \<open>encode\<close> with its default
  arguments, raises ValueError on a text that contains the special token.
\<close>

definition special_token :: string where
  "special_token = ''<|endoftext|>''"

definition tokenizer_error :: py_exception where
  "tokenizer_error =
     Exc ValueError ''Encountered text corresponding to disallowed special token''"

definition special_token_world :: world where
  "special_token_world =
     answering_world
       \<lparr>encode := (\<lambda>s. if contains special_token s then Inl tokenizer_error
                        else Inr (map of_char s))\<rparr>"

definition special_token_text :: string where
  "special_token_text = ''The model printed <|endoftext|> and stopped.''"

text \<open>
  Articles as the aggregator builds them: the body is None until it is fetched. The
  second has no usable title.
\<close>

definition unfetched_article :: dict where
  "unfetched_article =
     [''title'' \<mapsto> PStr ''Rates rise'', ''url'' \<mapsto> PStr ''https://example.org/a'',
      ''summary'' \<mapsto> PStr ''The bank raised rates.'', ''content'' \<mapsto> PNone]"

definition untitled_article :: dict where
  "untitled_article = unfetched_article(''title'' \<mapsto> PNone)"

definition breaking_article :: dict where
  "breaking_article =
     [''title'' \<mapsto> PStr ''BREAKING: rates rise'', ''summary'' \<mapsto> PStr ''The bank raised rates.'',
      ''content'' \<mapsto> PStr ''The central bank raised rates today.'']"

section \<open>Pricing tiers\<close>

lemma pricing_at_simps:
  "pricing_at ''built_in_ai'' = Inr 6"
  "pricing_at ''byok'' = Inr 2"
  "pricing_at ''free_tier_limit'' = Inr 50"
  by (simp_all add: pricing_at_def pricing_def)

lemma pricing_tier_names:
  "pricing ''free'' = None" "pricing ''basic'' = None"
  "pricing ''built_in_ai'' = Some 6" "pricing ''byok'' = Some 2"
  by (simp_all add: pricing_def)

lemma pricing_branch_free:
  "n \<le> 50 \<Longrightarrow> \<not> key_given k \<Longrightarrow>
     pricing_branch True k n = Inr (''free'', Free_description n 50, None, 0)"
  by (simp add: pricing_branch_def pricing_at_simps)

lemma pricing_branch_paid:
  "50 < n \<Longrightarrow> \<not> key_given k \<Longrightarrow>
     pricing_branch True k n =
       Inr (''built_in_ai'', Built_in_description 50 (real_of_int n - 50),
            Some (6 / 1000), (real_of_int n - 50) * (6 / 1000))"
  by (simp add: pricing_branch_def pricing_at_simps)

lemma calculate_pricing_tier_free:
  "n \<le> 50 \<Longrightarrow> \<not> key_given k \<Longrightarrow>
     calculate_pricing_tier True k n = Inl (Exc UnboundLocalError ''cost_per_article'')"
  by (simp add: calculate_pricing_tier_def pricing_branch_free pricing_tier_names)

lemma calculate_pricing_tier_paid:
  "50 < n \<Longrightarrow> \<not> key_given k \<Longrightarrow>
     calculate_pricing_tier True k n =
       Inr \<lparr>tier = ''built_in_ai'',
            description = Built_in_description 50 (real_of_int n - 50),
            cost_per_article = 6 / 1000, cost_per_1000 = 6,
            total_cost = (real_of_int n - 50) * (6 / 1000),
            articles_count = n, currency = ''USD''\<rparr>"
  by (simp add: calculate_pricing_tier_def pricing_branch_paid pricing_tier_names)

text \<open>
  C1. With AI enabled and no user key, a count of at most 50 should give tier "free" at
  cost 0. The code raises instead: at count 50 the call ends in UnboundLocalError, so no
  pricing decision is returned.
\<close>

theorem calculate_pricing_tier_free_raises:
  "calculate_pricing_tier True None 50 = Inl (Exc UnboundLocalError ''cost_per_article'')"
  by (simp add: calculate_pricing_tier_free)

section \<open>Request validation\<close>

lemma check_daily_limits_eq:
  "check_daily_limits self limit =
     Inr \<lparr>daily_limit = limit, current_spend = current_session_cost self,
          remaining_budget = max 0 (limit - current_session_cost self),
          articles_remaining = py_int (max 0 (limit - current_session_cost self) / (6 / 1000)),
          limit_exceeded = (current_session_cost self \<ge> limit)\<rparr>"
  by (simp add: check_daily_limits_def pricing_at_simps Let_def)

lemma calculate_pricing_tier_basic:
  "calculate_pricing_tier False k n =
     Inr \<lparr>tier = ''basic'', description = Basic_description,
          cost_per_article = 1 / 1000, cost_per_1000 = 1,
          total_cost = real_of_int n * (1 / 1000),
          articles_count = n, currency = ''USD''\<rparr>"
  by (simp add: calculate_pricing_tier_def pricing_branch_def pricing_tier_names)

lemma calculate_pricing_tier_byok:
  "key_given k \<Longrightarrow>
     calculate_pricing_tier True k n =
       Inr \<lparr>tier = ''byok'', description = Byok_description,
            cost_per_article = 2 / 1000, cost_per_1000 = 2,
            total_cost = real_of_int n * (2 / 1000),
            articles_count = n, currency = ''USD''\<rparr>"
  by (simp add: calculate_pricing_tier_def pricing_branch_def pricing_at_simps pricing_tier_names)

text \<open>
  C6. Requests that resolve to the free tier should always be valid. The code raises
  instead: \<open>validate_request\<close> first calls \<open>calculate_pricing_tier\<close>, whose
  UnboundLocalError on the free tier escapes, so no validation result is returned.
\<close>

theorem validate_request_free_raises:
  "validate_request init_cost_manager 50 True None 3 =
     Inl (Exc UnboundLocalError ''cost_per_article'')"
  by (simp add: validate_request_def calculate_pricing_tier_free)

text \<open>
  The built-in tier is budget-gated: the request is rejected exactly when the daily limit
  is already reached or the count exceeds \<open>articles_remaining\<close>; in the second case the
  suggested count is \<open>articles_remaining\<close> itself.
\<close>

theorem validate_request_built_in:
  assumes "50 < n" and "\<not> key_given k"
  shows "\<exists>v l. validate_request self limit True k n = Inr v
           \<and> check_daily_limits self limit = Inr l
           \<and> tier (pricing_info v) = ''built_in_ai''
           \<and> (valid v \<longleftrightarrow> \<not> (limit_exceeded l \<or> n > articles_remaining l))
           \<and> (\<not> limit_exceeded l \<and> n > articles_remaining l \<longrightarrow>
                 suggested_max_articles v = Some (articles_remaining l))
           \<and> (valid v \<longrightarrow> estimated_cost v = Some ((real_of_int n - 50) * (6 / 1000)))"
  using assms
  by (simp add: validate_request_def calculate_pricing_tier_paid check_daily_limits_eq Let_def)

theorem validate_request_built_in_witness:
  "\<exists>v l. validate_request init_cost_manager 50 True None 9000 = Inr v
     \<and> check_daily_limits init_cost_manager 50 = Inr l
     \<and> articles_remaining l = 8333
     \<and> \<not> valid v \<and> suggested_max_articles v = Some 8333"
proof -
  have "py_int (50 / (6 / 1000)) = 8333"
    by (simp add: py_int_def floor_eq_iff)
  then have l: "check_daily_limits init_cost_manager 50 =
      Inr \<lparr>daily_limit = 50, current_spend = 0, remaining_budget = 50,
           articles_remaining = 8333, limit_exceeded = False\<rparr>"
    by (simp add: check_daily_limits_eq init_cost_manager_def)
  from validate_request_built_in [of 9000 None init_cost_manager 50]
  show ?thesis by (auto simp: l)
qed

text \<open>The basic and the bring-your-own-key tier are never budget-gated.\<close>

theorem validate_request_ungated:
  assumes "\<not> enable_ai \<or> key_given k"
  shows "\<exists>v. validate_request self limit enable_ai k n = Inr v \<and> valid v
           \<and> tier (pricing_info v) \<in> {''basic'', ''byok''}
           \<and> estimated_cost v = Some (total_cost (pricing_info v))"
proof (cases enable_ai)
  case False
  then show ?thesis
    by (simp add: validate_request_def calculate_pricing_tier_basic)
next
  case True
  with assms have "key_given k" by simp
  with True show ?thesis
    by (simp add: validate_request_def calculate_pricing_tier_byok)
qed

theorem validate_request_ungated_witness:
  "\<exists>v. validate_request \<lparr>current_session_cost = 60, articles_processed = 0\<rparr> 50
          True (Some ''sk-user'') 100000 = Inr v \<and> valid v"
  using validate_request_ungated [of True "Some ''sk-user''"
      "\<lparr>current_session_cost = 60, articles_processed = 0\<rparr>" 50 100000]
  by auto

text \<open>
  Above the free threshold the first 50 articles are free and the rest is billed at the
  built-in rate per article; the cost is never negative, and at 51 it is one article's rate.
\<close>

theorem calculate_pricing_tier_built_in:
  assumes "50 < n" and "\<not> key_given k"
  shows "\<exists>p. calculate_pricing_tier True k n = Inr p \<and> tier p = ''built_in_ai''
           \<and> total_cost p = real_of_int (n - 50) * cost_per_article p
           \<and> cost_per_article p = 6 / 1000 \<and> 0 \<le> total_cost p"
  using assms by (simp add: calculate_pricing_tier_paid)

theorem calculate_pricing_tier_built_in_witness:
  "\<exists>p. calculate_pricing_tier True None 51 = Inr p \<and> total_cost p = 6 / 1000"
  using calculate_pricing_tier_built_in [of 51 None] by auto

section \<open>SHA-256\<close>

subsection \<open>Padding and blocks of a short message\<close>

lemma pad_gap:
  fixes n :: nat
  assumes "n < 56"
  shows "(119 - n) mod 64 = 55 - n"
proof -
  from assms have "119 - n = 64 + (55 - n)" by linarith
  then have "(119 - n) mod 64 = (64 + (55 - n)) mod 64" by (rule arg_cong)
  also have "\<dots> = (55 - n) mod 64" by (rule mod_add_self1)
  also have "\<dots> = 55 - n" by (rule mod_less) linarith
  finally show ?thesis .
qed

lemma upt_8: "[0..<8] = [0, 1, 2, 3, 4, 5, 6, 7]"
  by (simp add: upt_rec)

lemma be_bytes_small: "n < 256 \<Longrightarrow> be_bytes 8 n = [0, 0, 0, 0, 0, 0, 0, n]"
  by (simp add: be_bytes_def upt_8)

lemma sha256_pad_short:
  "length msg < 32 \<Longrightarrow>
   sha256_pad msg = msg @ [128] @ replicate (55 - length msg) 0
                      @ [0, 0, 0, 0, 0, 0, 0, 8 * length msg]"
  by (simp add: sha256_pad_def pad_gap be_bytes_small)

lemma replicate_numeral: "replicate (numeral k) x = x # replicate (pred_numeral k) x"
  by (simp add: numeral_eq_Suc)

lemma sha256_blocks_one: "length xs = 64 \<Longrightarrow> sha256_blocks xs = [xs]"
  by (subst sha256_blocks.simps, subst sha256_blocks.simps) auto

lemma sha256_digest_short:
  assumes "length s < 32"
  shows "sha256_digest s = map2 (+) sha256_h0 (foldl sha256_round sha256_h0
           (zip sha256_k (sha256_schedule 48 (be_words (sha256_pad (map of_char s))))))"
proof -
  from assms have "length (sha256_pad (map of_char s)) = 64"
    by (simp add: sha256_pad_short)
  then have "sha256_blocks (sha256_pad (map of_char s)) = [sha256_pad (map of_char s)]"
    by (rule sha256_blocks_one)
  then show ?thesis
    by (simp only: sha256_digest_def foldl.simps sha256_compress_def)
qed

subsection \<open>The digest has eight words\<close>

lemma length_sha256_round:
  assumes "length s = 8"
  shows "length (sha256_round s kw) = 8"
proof -
  from assms obtain a b c d e f g h where "s = [a, b, c, d, e, f, g, h]"
    by (auto simp: numeral_eq_Suc length_Suc_conv)
  then show ?thesis by (cases kw) (simp add: Let_def)
qed

lemma length_foldl_round: "length s = 8 \<Longrightarrow> length (foldl sha256_round s kws) = 8"
  by (induction kws arbitrary: s) (simp_all add: length_sha256_round)

lemma length_sha256_compress:
  "length h = 8 \<Longrightarrow> length (sha256_compress h block) = 8"
  by (simp add: sha256_compress_def length_foldl_round)

lemma length_sha256_digest: "length (sha256_digest s) = 8"
proof -
  have "length (foldl sha256_compress h blocks) = 8" if "length h = 8" for h blocks
    using that by (induction blocks arbitrary: h) (simp_all add: length_sha256_compress)
  then show ?thesis by (simp add: sha256_digest_def sha256_h0_def)
qed

subsection \<open>The hexadecimal print loses nothing\<close>

lemma hex_digit_simps:
  "hex_digit 0 = CHR ''0''" "hex_digit (Suc 0) = CHR ''1''" "hex_digit 2 = CHR ''2''"
  "hex_digit 3 = CHR ''3''" "hex_digit 4 = CHR ''4''" "hex_digit 5 = CHR ''5''"
  "hex_digit 6 = CHR ''6''" "hex_digit 7 = CHR ''7''" "hex_digit 8 = CHR ''8''"
  "hex_digit 9 = CHR ''9''" "hex_digit 10 = CHR ''a''" "hex_digit 11 = CHR ''b''"
  "hex_digit 12 = CHR ''c''" "hex_digit 13 = CHR ''d''" "hex_digit 14 = CHR ''e''"
  "hex_digit 15 = CHR ''f''"
  by code_simp+

lemma hex_digit_range: "n < 16 \<Longrightarrow> hex_digit n \<in> set ''0123456789abcdef''"
proof -
  assume "n < 16"
  then have "n \<in> set [0, Suc 0, 2, 3, 4, 5, 6, 7, 8, 9, 10, 11, 12, 13, 14, 15]"
    by (simp only: set_simps insert_iff empty_iff simp_thms) arith
  then show ?thesis
    by (auto simp: hex_digit_simps)
qed

lemma of_char_hex_digit:
  "n < 16 \<Longrightarrow> (of_char (hex_digit n) :: nat) = (if n < 10 then 48 + n else 87 + n)"
  by (simp add: hex_digit_def)

lemma hex_digit_inj:
  assumes "a < 16" "b < 16" "hex_digit a = hex_digit b"
  shows "a = b"
proof -
  from assms(3) have "(of_char (hex_digit a) :: nat) = of_char (hex_digit b)" by simp
  with assms(1,2) show ?thesis
    by (simp add: of_char_hex_digit split: if_splits)
qed

lemma base16_inj:
  fixes n m :: nat
  assumes "n < 16 ^ k" "m < 16 ^ k"
    and "\<forall>i<k. (n div 16 ^ i) mod 16 = (m div 16 ^ i) mod 16"
  shows "n = m"
  using assms
proof (induction k arbitrary: n m)
  case 0
  then show ?case by simp
next
  case (Suc k)
  have "n div 16 < 16 ^ k" "m div 16 < 16 ^ k"
    using Suc.prems(1,2) by (simp_all add: less_mult_imp_div_less mult.commute)
  moreover have "\<forall>i<k. (n div 16 div 16 ^ i) mod 16 = (m div 16 div 16 ^ i) mod 16"
  proof (intro allI impI)
    fix i assume "i < k"
    then have "Suc i < Suc k" by simp
    with Suc.prems(3) have "(n div 16 ^ Suc i) mod 16 = (m div 16 ^ Suc i) mod 16"
      by blast
    then show "(n div 16 div 16 ^ i) mod 16 = (m div 16 div 16 ^ i) mod 16"
      by (simp add: div_mult2_eq)
  qed
  ultimately have high: "n div 16 = m div 16" by (rule Suc.IH)
  from Suc.prems(3) have low: "n mod 16 = m mod 16"
    by (metis div_by_1 power_0 zero_less_Suc)
  have "n = 16 * (n div 16) + n mod 16" by simp
  also have "\<dots> = 16 * (m div 16) + m mod 16" by (simp only: high low)
  also have "\<dots> = m" by simp
  finally show ?case .
qed

lemma length_hex_word: "length (hex_word w) = 8"
  by (simp add: hex_word_def)

lemma hex_word_range:
  assumes "c \<in> set (hex_word w)"
  shows "c \<in> set ''0123456789abcdef''"
proof -
  from assms obtain i where "c = hex_digit ((unat w div 16 ^ (7 - i)) mod 16)"
    unfolding hex_word_def by auto
  moreover have "(unat w div 16 ^ (7 - i)) mod 16 < 16" by simp
  ultimately show ?thesis by (simp only: hex_digit_range)
qed

lemma hex_word_inj:
  assumes "hex_word v = hex_word w"
  shows "v = w"
proof -
  have digits: "(unat v div 16 ^ j) mod 16 = (unat w div 16 ^ j) mod 16" if "j < 8" for j
  proof -
    from that have "7 - j \<in> set [0..<8]" by simp
    with assms have "hex_digit ((unat v div 16 ^ (7 - (7 - j))) mod 16)
        = hex_digit ((unat w div 16 ^ (7 - (7 - j))) mod 16)"
      unfolding hex_word_def map_eq_conv by blast
    moreover from that have "7 - (7 - j) = j" by simp
    ultimately have "hex_digit ((unat v div 16 ^ j) mod 16)
        = hex_digit ((unat w div 16 ^ j) mod 16)" by simp
    then show ?thesis by (rule hex_digit_inj [rotated 2]) simp_all
  qed
  have "unat v < 2 ^ 32" "unat w < 2 ^ 32"
    using unsigned_less [of v] unsigned_less [of w] by simp_all
  then have "unat v < 16 ^ 8" "unat w < 16 ^ 8" by simp_all
  then have "unat v = unat w"
    by (rule base16_inj) (simp add: digits)
  then show ?thesis by (simp add: word_unat_eq_iff)
qed

lemma take_16_hex:
  assumes "length ws = 8"
  shows "take 16 (concat (map hex_word ws)) = hex_word (ws ! 0) @ hex_word (ws ! 1)"
proof -
  from assms obtain a b c d e f g h where "ws = [a, b, c, d, e, f, g, h]"
    by (auto simp: numeral_eq_Suc length_Suc_conv)
  then show ?thesis by (simp add: length_hex_word)
qed

lemma take_2_eq:
  assumes "length vs = 8" "length ws = 8"
  shows "take 2 vs = take 2 ws \<longleftrightarrow> vs ! 0 = ws ! 0 \<and> vs ! 1 = ws ! 1"
proof -
  from assms(1) obtain a b c d e f g h where "vs = [a, b, c, d, e, f, g, h]"
    by (auto simp: numeral_eq_Suc length_Suc_conv)
  moreover from assms(2) obtain a' b' c' d' e' f' g' h' where
    "ws = [a', b', c', d', e', f', g', h']"
    by (auto simp: numeral_eq_Suc length_Suc_conv)
  ultimately show ?thesis by (simp add: numeral_2_eq_2)
qed

lemma hex_prefix_eq_iff:
  assumes "length vs = 8" "length ws = 8"
  shows "take 16 (concat (map hex_word vs)) = take 16 (concat (map hex_word ws))
         \<longleftrightarrow> take 2 vs = take 2 ws"
  using hex_word_inj
  by (auto simp: take_16_hex [OF assms(1)] take_16_hex [OF assms(2)] take_2_eq [OF assms]
      length_hex_word)

lemma sha256_prefix_eq_iff:
  "take 16 (sha256_hexdigest s) = take 16 (sha256_hexdigest s')
   \<longleftrightarrow> take 2 (sha256_digest s) = take 2 (sha256_digest s')"
  unfolding sha256_hexdigest_def
  by (rule hex_prefix_eq_iff) (rule length_sha256_digest)+

lemma length_sha256_prefix: "length (take 16 (sha256_hexdigest s)) = 16"
  by (simp add: sha256_hexdigest_def take_16_hex [OF length_sha256_digest] length_hex_word)

lemma sha256_prefix_range:
  "set (take 16 (sha256_hexdigest s)) \<subseteq> set ''0123456789abcdef''"
proof
  fix c assume "c \<in> set (take 16 (sha256_hexdigest s))"
  then have "c \<in> set (sha256_hexdigest s)" by (rule in_set_takeD)
  then obtain w where "c \<in> set (hex_word w)"
    unfolding sha256_hexdigest_def by auto
  then show "c \<in> set ''0123456789abcdef''" by (rule hex_word_range)
qed

subsection \<open>Digests of short texts\<close>

text \<open>The test vector of the standard for the message \<open>abc\<close>.\<close>

lemma sha256_hexdigest_abc:
  "sha256_hexdigest ''abc'' =
     ''ba7816bf8f01cfea414140de5dae2223b00361a396177a9cb410ff61f20015ad''"
proof -
  have short: "length ''abc'' < 32" by simp
  have words: "be_words (sha256_pad (map of_char ''abc'')) =
     [1633837952, 0, 0, 0, 0, 0,
      0, 0, 0, 0, 0, 0,
      0, 0, 0, 24]"
    by (simp add: sha256_pad_short replicate_numeral)
  have rounds: "map2 (+) sha256_h0 (foldl sha256_round sha256_h0 (zip sha256_k (sha256_schedule 48
     [1633837952, 0, 0, 0, 0, 0,
      0, 0, 0, 0, 0, 0,
      0, 0, 0, 24]))) =
     [3128432319, 2399260650, 1094795486, 1571693091,
      2953011619, 2518121116, 3021012833, 4060091821]"
    by code_simp
  have "sha256_digest ''abc'' =
     [3128432319, 2399260650, 1094795486, 1571693091,
      2953011619, 2518121116, 3021012833, 4060091821]"
    by (simp only: sha256_digest_short [OF short] words rounds)
  then show ?thesis
    by (simp add: sha256_hexdigest_def hex_word_def upt_8 hex_digit_simps)
qed

section \<open>Text\<close>

lemma take_length_eq_iff: "take (length sub) xs = sub \<longleftrightarrow> (\<exists>b. xs = sub @ b)"
  by (metis append_take_drop_id append_eq_conv_conj)

lemma contains_iff: "contains sub s \<longleftrightarrow> (\<exists>a b. s = a @ sub @ b)"
proof (induction s)
  case Nil
  then show ?case by auto
next
  case (Cons c cs)
  have "(\<exists>a b. c # cs = a @ sub @ b) \<longleftrightarrow> (\<exists>b. c # cs = sub @ b) \<or> (\<exists>a b. cs = a @ sub @ b)"
    by (auto simp: Cons_eq_append_conv)
  with Cons show ?case by (simp add: take_length_eq_iff del: take_Suc_Cons)
qed

lemma contains_any_case:
  assumes "title = a @ u @ b" and "py_lower u = marker"
  shows "contains marker (py_lower title)"
proof -
  have "py_lower title = py_lower a @ marker @ py_lower b"
    using assms by (simp add: py_lower_def)
  then show ?thesis unfolding contains_iff by blast
qed

section \<open>The sub-tasks\<close>

lemma calculate_cost_nonneg: "0 \<le> calculate_cost self input_tokens output_tokens"
  by (auto simp: calculate_cost_def model_pricing_def split: option.splits if_splits)

lemma parse_response_cost_nonneg:
  assumes "parse_response w self input_tokens response = Inr (d, cost)"
  shows "0 \<le> cost"
  using assms calculate_cost_nonneg [of self]
  by (auto simp: parse_response_def Let_def
      split: sum.splits list.splits option.splits pyval.splits)

lemma completion_json_cost_nonneg:
  assumes "fst (completion_json w self rq) = Inr (d, cost)"
  shows "0 \<le> cost"
  using assms
  by (auto simp: completion_json_def split: sum.splits dest: parse_response_cost_nonneg)

lemma analyze_sentiment_cases:
  "fst (analyze_sentiment w self text) =
     (if flagged (moderate_content w text) then Inr sentiment_flagged
      else case truncate_text w text 2000 of
             Inl e \<Rightarrow> Inl e
           | Inr truncated \<Rightarrow>
               (case fst (completion_json w self (sentiment_request self truncated)) of
                  Inr (d, cost) \<Rightarrow>
                    Inr (d(''cost'' \<mapsto> PNum cost, ''moderation_flagged'' \<mapsto> PBool False))
                | Inl e \<Rightarrow> Inr (sentiment_fallback e)))"
  by (simp add: analyze_sentiment_def Let_def split: sum.split prod.split)

lemma summarize_article_cases:
  "fst (summarize_article w self title content) =
     (if flagged (moderate_content w (summary_moderated_text title content))
      then Inr summary_flagged
      else case truncate_text w content 2500 of
             Inl e \<Rightarrow> Inl e
           | Inr truncated \<Rightarrow>
               (case fst (completion_json w self (summary_request self title truncated)) of
                  Inr (d, cost) \<Rightarrow>
                    Inr (d(''cost'' \<mapsto> PNum cost, ''moderation_flagged'' \<mapsto> PBool False))
                | Inl e \<Rightarrow> Inr summary_fallback))"
  by (simp add: summarize_article_def Let_def split: sum.split prod.split)

lemma classify_topics_cases:
  "fst (classify_topics w self title content) =
     (case truncate_text w content 2000 of
        Inl e \<Rightarrow> Inl e
      | Inr truncated \<Rightarrow>
          (case fst (completion_json w self (classification_request self title truncated)) of
             Inr (d, cost) \<Rightarrow> Inr (d(''cost'' \<mapsto> PNum cost))
           | Inl e \<Rightarrow> Inr classification_fallback))"
  by (simp add: classify_topics_def Let_def split: sum.split prod.split)

lemma fallback_costs:
  "sentiment_fallback e ''cost'' = Some (PNum 0)"
  "summary_fallback ''cost'' = Some (PNum 0)"
  "classification_fallback ''cost'' = Some (PNum 0)"
  "summary_flagged ''cost'' = Some (PNum 0)"
  "sentiment_flagged ''cost'' = None"
  by (simp_all add: sentiment_fallback_def summary_fallback_def classification_fallback_def
      summary_flagged_def sentiment_flagged_def)

subsection \<open>The example worlds\<close>

lemma example_encode:
  "encode failing_world s = Inr (map of_char s)"
  "encode answering_world s = Inr (map of_char s)"
  "encode flagging_world s = Inr (map of_char s)"
  by (simp_all add: failing_world_def answering_world_def flagging_world_def)

lemma truncate_text_returns:
  assumes "encode w text = Inr tokens"
  shows "\<exists>truncated. truncate_text w text limit = Inr truncated"
  using assms by (simp add: truncate_text_def)

lemma truncate_text_short:
  assumes "encode w text = Inr (map of_char text)" and "length text \<le> limit"
  shows "truncate_text w text limit = Inr text"
  using assms by (simp add: truncate_text_def)

lemma failing_world_completion:
  "fst (completion_json failing_world self rq) = Inl (Exc ServiceError ''Request timed out'')"
  by (simp add: completion_json_def count_tokens_def failing_world_def)

lemma failing_world_moderation: "\<not> flagged (moderate_content failing_world text)"
  by (simp add: moderate_content_def failing_world_def unflagged_entry_def)

lemma answering_world_moderation: "\<not> flagged (moderate_content answering_world text)"
  by (simp add: moderate_content_def answering_world_def failing_world_def unflagged_entry_def)

lemma flagging_world_moderation: "flagged (moderate_content flagging_world text)"
  by (simp add: moderate_content_def flagging_world_def answering_world_def failing_world_def
      unflagged_entry_def)

lemma special_token_world_moderation:
  "\<not> flagged (moderate_content special_token_world text)"
  by (simp add: moderate_content_def special_token_world_def answering_world_def
      failing_world_def unflagged_entry_def)

lemma failing_world_sub_tasks:
  "fst (analyze_sentiment failing_world self text)
     = Inr (sentiment_fallback (Exc ServiceError ''Request timed out''))"
  "fst (summarize_article failing_world self title content) = Inr summary_fallback"
  "fst (classify_topics failing_world self title content) = Inr classification_fallback"
  by (simp_all add: analyze_sentiment_cases summarize_article_cases classify_topics_cases
      failing_world_moderation failing_world_completion truncate_text_def example_encode)

lemma answering_world_match: "json_match (strip ''Here you go: {...} '') = Some ''{...}''"
  by code_simp

lemma answering_world_completion:
  "fst (completion_json answering_world self rq) =
     Inr ([''score'' \<mapsto> PNum (9 / 10), ''label'' \<mapsto> PStr ''positive''],
          calculate_cost self (length (rq_prompt rq)) 40)"
  by (simp add: completion_json_def count_tokens_def parse_response_def answering_world_def
      failing_world_def answering_world_match Let_def)

lemma special_token_in_text: "contains special_token special_token_text"
  unfolding special_token_def special_token_text_def by code_simp

lemma special_token_world_truncate:
  "truncate_text special_token_world special_token_text limit = Inl tokenizer_error"
  by (simp add: truncate_text_def special_token_world_def special_token_in_text)

subsection \<open>Failures of the completion step\<close>

text \<open>
  C5. No exception of a sub-task should reach its caller. The prompt is built before the
  \<open>try\<close> block, and building it calls the tokenizer (\<open>truncate_text\<close>): with a tokenizer
  that rejects the special token, each of the three sub-tasks raises ValueError on a
  text that contains it.
\<close>

theorem sub_tasks_propagate_tokenizer_error:
  "fst (analyze_sentiment special_token_world example_analyzer special_token_text)
     = Inl tokenizer_error
   \<and> fst (summarize_article special_token_world example_analyzer ''Title'' special_token_text)
     = Inl tokenizer_error
   \<and> fst (classify_topics special_token_world example_analyzer ''Title'' special_token_text)
     = Inl tokenizer_error"
  by (simp add: analyze_sentiment_cases summarize_article_cases classify_topics_cases
      special_token_world_moderation special_token_world_truncate)

text \<open>
  Once the prompt is built, no failure escapes: when the tokenizer returns on the text,
  each sub-task returns a dict, and when the \<open>try\<close> block fails in any way (counting the
  prompt's tokens or the completion call raises, the response has no usable choice, no
  JSON block is found or it does not parse), the dict is the fixed fallback payload of
  the task, with cost 0.
\<close>

theorem sub_tasks_absorb_failures:
  "(\<forall>truncated. truncate_text w text 2000 = Inr truncated \<longrightarrow>
      (\<exists>d. fst (analyze_sentiment w self text) = Inr d
          \<and> (\<forall>e. \<not> flagged (moderate_content w text)
                 \<and> fst (completion_json w self (sentiment_request self truncated)) = Inl e
               \<longrightarrow> d = sentiment_fallback e \<and> d ''cost'' = Some (PNum 0))))
   \<and> (\<forall>truncated. truncate_text w content 2500 = Inr truncated \<longrightarrow>
      (\<exists>d. fst (summarize_article w self title content) = Inr d
          \<and> (\<forall>e. \<not> flagged (moderate_content w (summary_moderated_text title content))
                 \<and> fst (completion_json w self (summary_request self title truncated)) = Inl e
               \<longrightarrow> d = summary_fallback \<and> d ''cost'' = Some (PNum 0))))
   \<and> (\<forall>truncated. truncate_text w content 2000 = Inr truncated \<longrightarrow>
      (\<exists>d. fst (classify_topics w self title content) = Inr d
          \<and> (\<forall>e. fst (completion_json w self (classification_request self title truncated))
                   = Inl e
               \<longrightarrow> d = classification_fallback \<and> d ''cost'' = Some (PNum 0))))"
proof (intro conjI allI impI)
  fix truncated
  assume "truncate_text w text 2000 = Inr truncated"
  then show "\<exists>d. fst (analyze_sentiment w self text) = Inr d
          \<and> (\<forall>e. \<not> flagged (moderate_content w text)
                 \<and> fst (completion_json w self (sentiment_request self truncated)) = Inl e
               \<longrightarrow> d = sentiment_fallback e \<and> d ''cost'' = Some (PNum 0))"
    by (auto simp: analyze_sentiment_cases fallback_costs split: sum.split prod.split)
next
  fix truncated
  assume "truncate_text w content 2500 = Inr truncated"
  then show "\<exists>d. fst (summarize_article w self title content) = Inr d
          \<and> (\<forall>e. \<not> flagged (moderate_content w (summary_moderated_text title content))
                 \<and> fst (completion_json w self (summary_request self title truncated)) = Inl e
               \<longrightarrow> d = summary_fallback \<and> d ''cost'' = Some (PNum 0))"
    by (auto simp: summarize_article_cases fallback_costs split: sum.split prod.split)
next
  fix truncated
  assume "truncate_text w content 2000 = Inr truncated"
  then show "\<exists>d. fst (classify_topics w self title content) = Inr d
          \<and> (\<forall>e. fst (completion_json w self (classification_request self title truncated))
                   = Inl e
               \<longrightarrow> d = classification_fallback \<and> d ''cost'' = Some (PNum 0))"
    by (auto simp: classify_topics_cases fallback_costs split: sum.split prod.split)
qed

theorem sub_tasks_absorb_failures_witness:
  "truncate_text failing_world ''Markets rally'' 2000 = Inr ''Markets rally''
   \<and> fst (analyze_sentiment failing_world example_analyzer ''Markets rally'')
     = Inr (sentiment_fallback (Exc ServiceError ''Request timed out''))
   \<and> fst (summarize_article failing_world example_analyzer ''Markets'' ''Markets rally'')
     = Inr summary_fallback
   \<and> fst (classify_topics failing_world example_analyzer ''Markets'' ''Markets rally'')
     = Inr classification_fallback"
proof -
  have short: "truncate_text failing_world ''Markets rally'' limit = Inr ''Markets rally''"
    if "13 \<le> limit" for limit
    using that by (simp add: truncate_text_short example_encode)
  from sub_tasks_absorb_failures
    [of failing_world "''Markets rally''" example_analyzer "''Markets rally''" "''Markets''"]
  show ?thesis
    by (auto simp: short failing_world_completion failing_world_moderation)
qed

subsection \<open>Costs and moderation\<close>

text \<open>
  C3. A flagged sentiment result should carry cost 0. The code returns a payload without
  the key \<open>cost\<close>: in a world whose moderation flags the text, the sentiment result has
  \<open>moderation_flagged\<close> true and no cost field at all.
\<close>

theorem sentiment_flagged_without_cost:
  "\<exists>d. fst (analyze_sentiment flagging_world example_analyzer ''Some text'') = Inr d
     \<and> d ''moderation_flagged'' = Some (PBool True) \<and> d ''cost'' = None"
  by (simp add: analyze_sentiment_cases flagging_world_moderation sentiment_flagged_def)

text \<open>
  C4. Classification should moderate its input before the completion call. The code
  makes no moderation call: in a world whose moderation flags every text, the only call
  of \<open>classify_topics\<close> is the completion call, with the flagged text in its prompt.
\<close>

theorem classify_topics_skips_moderation:
  "flagged (moderate_content flagging_world (''Title'' @ [nl, nl] @ ''Body''))
   \<and> snd (classify_topics flagging_world example_analyzer ''Title'' ''Body'')
     = [Completion_call (classification_request example_analyzer ''Title'' ''Body'')]"
  by (simp add: flagging_world_moderation classify_topics_def completion_json_def
      count_tokens_def truncate_text_def example_encode Let_def)

text \<open>
  Sentiment and summary do moderate first: the first call is the moderation call, and
  when it flags the text no completion call follows and the flagged payload is returned.
\<close>

theorem moderation_short_circuits:
  "(\<exists>rest. snd (analyze_sentiment w self text) = Moderation_call text # rest
       \<and> (flagged (moderate_content w text) \<longrightarrow>
            rest = [] \<and> fst (analyze_sentiment w self text) = Inr sentiment_flagged))
   \<and> (\<exists>rest. snd (summarize_article w self title content)
                = Moderation_call (summary_moderated_text title content) # rest
       \<and> (flagged (moderate_content w (summary_moderated_text title content)) \<longrightarrow>
            rest = [] \<and> fst (summarize_article w self title content) = Inr summary_flagged))"
  by (simp add: analyze_sentiment_def summarize_article_def Let_def
      split: sum.split prod.split)

theorem moderation_short_circuits_witness:
  "snd (analyze_sentiment flagging_world example_analyzer ''Some text'')
     = [Moderation_call ''Some text'']
   \<and> fst (summarize_article flagging_world example_analyzer ''Title'' ''Body'')
     = Inr summary_flagged"
  using moderation_short_circuits [of flagging_world example_analyzer "''Some text''"
      "''Title''" "''Body''"]
  by (auto simp: flagging_world_moderation)

text \<open>
  Wherever a sub-task returns a result with a cost, the cost is a number that is not
  negative; only the flagged sentiment payload has none.
\<close>

theorem sub_task_costs_nonneg:
  "(\<forall>d. fst (analyze_sentiment w self text) = Inr d \<longrightarrow>
        d ''cost'' = None \<and> flagged (moderate_content w text)
        \<or> (\<exists>c. d ''cost'' = Some (PNum c) \<and> 0 \<le> c))
   \<and> (\<forall>d. fst (summarize_article w self title content) = Inr d \<longrightarrow>
        (\<exists>c. d ''cost'' = Some (PNum c) \<and> 0 \<le> c))
   \<and> (\<forall>d. fst (classify_topics w self title content) = Inr d \<longrightarrow>
        (\<exists>c. d ''cost'' = Some (PNum c) \<and> 0 \<le> c))"
proof (intro conjI allI impI)
  fix d
  assume "fst (analyze_sentiment w self text) = Inr d"
  then show "d ''cost'' = None \<and> flagged (moderate_content w text)
        \<or> (\<exists>c. d ''cost'' = Some (PNum c) \<and> 0 \<le> c)"
    by (auto simp: analyze_sentiment_cases fallback_costs
        split: sum.splits prod.splits if_splits dest: completion_json_cost_nonneg)
next
  fix d
  assume "fst (summarize_article w self title content) = Inr d"
  then show "\<exists>c. d ''cost'' = Some (PNum c) \<and> 0 \<le> c"
    by (auto simp: summarize_article_cases fallback_costs
        split: sum.splits prod.splits if_splits dest: completion_json_cost_nonneg)
next
  fix d
  assume "fst (classify_topics w self title content) = Inr d"
  then show "\<exists>c. d ''cost'' = Some (PNum c) \<and> 0 \<le> c"
    by (auto simp: classify_topics_cases fallback_costs
        split: sum.splits prod.splits if_splits dest: completion_json_cost_nonneg)
qed

theorem sub_task_costs_nonneg_witness:
  "\<exists>d c. fst (classify_topics answering_world example_analyzer ''Title'' ''Body'') = Inr d
     \<and> d ''cost'' = Some (PNum c) \<and> 0 \<le> c"
proof -
  have "\<exists>d. fst (classify_topics answering_world example_analyzer ''Title'' ''Body'') = Inr d"
    by (simp add: classify_topics_cases truncate_text_def example_encode
        answering_world_completion)
  with sub_task_costs_nonneg [of answering_world example_analyzer "''Title''" "''Title''" "''Body''"]
  show ?thesis by blast
qed

section \<open>One article\<close>

lemma chosen_texts_unfetched:
  "chosen_texts unfetched_article True = (PStr ''Rates rise'', PStr ''Rates rise'')"
  by (simp add: chosen_texts_def unfetched_article_def dict_get_def Let_def)

text \<open>
  C7 as stated fails: for an article whose body was not fetched but whose summary is
  present, \<open>include_content = True\<close> makes the code analyse the title, where the
  specification's rule picks the summary.
\<close>

theorem chosen_text_counterexample:
  "snd (chosen_texts unfetched_article True) = PStr ''Rates rise''
   \<and> specified_input_text unfetched_article True = PStr ''The bank raised rates.''
   \<and> snd (chosen_texts unfetched_article True) \<noteq> specified_input_text unfetched_article True"
  by (simp add: chosen_texts_unfetched)
     (simp add: specified_input_text_def unfetched_article_def dict_get_def Let_def)

text \<open>
  C7, amended. The input text is the body when \<open>include_content\<close> holds and the summary
  otherwise; when the value so picked is empty or None the title takes its place (the
  summary is not consulted when \<open>include_content\<close> holds). So the chosen text is never
  empty when the title is not.
\<close>

theorem chosen_text_rule:
  "snd (chosen_texts article include_content) =
     (if include_content then
        (if truthy (dict_get article ''content'' (PStr ''''))
         then dict_get article ''content'' (PStr '''')
         else dict_get article ''title'' (PStr ''''))
      else
        (if truthy (dict_get article ''summary'' (PStr ''''))
         then dict_get article ''summary'' (PStr '''')
         else dict_get article ''title'' (PStr '''')))
   \<and> fst (chosen_texts article include_content) = dict_get article ''title'' (PStr '''')
   \<and> (truthy (dict_get article ''title'' (PStr '''')) \<longrightarrow>
        truthy (snd (chosen_texts article include_content)))"
  by (simp add: chosen_texts_def Let_def)

theorem chosen_text_rule_witness:
  "truthy (dict_get unfetched_article ''title'' (PStr ''''))
   \<and> truthy (snd (chosen_texts unfetched_article True))
   \<and> snd (chosen_texts unfetched_article False) = PStr ''The bank raised rates.''"
  using chosen_text_rule [of unfetched_article True] chosen_text_rule [of unfetched_article False]
  by (simp add: unfetched_article_def dict_get_def)

subsection \<open>The analysis record\<close>

lemma analyze_article_strings:
  "analyze_article w self article inc = Inr analysis \<Longrightarrow>
     \<exists>title content. chosen_texts article inc = (PStr title, PStr content)"
  by (auto simp: analyze_article_def split: prod.splits pyval.splits)

lemma analyze_article_on_strings:
  assumes "chosen_texts article inc = (PStr title, PStr content)"
  shows "analyze_article w self article inc =
     (case fst (analyze_sentiment w self (title @ [nl] @ content)) of
        Inl e \<Rightarrow> Inl e
      | Inr sentiment \<Rightarrow>
     (case fst (classify_topics w self title content) of
        Inl e \<Rightarrow> Inl e
      | Inr classification \<Rightarrow>
     (case (if length content > 200 then fst (summarize_article w self title content)
            else Inr [''summary'' \<mapsto> dict_get article ''summary'' (PStr title),
                      ''key_points'' \<mapsto> PList [], ''cost'' \<mapsto> PNum 0,
                      ''moderation_flagged'' \<mapsto> PBool False]) of
        Inl e \<Rightarrow> Inl e
      | Inr summarization \<Rightarrow>
     (case (as_number (dict_get sentiment ''cost'' (PNum 0)),
            as_number (dict_get classification ''cost'' (PNum 0)),
            as_number (dict_get summarization ''cost'' (PNum 0))) of
        (Inr c1, Inr c2, Inr c3) \<Rightarrow>
          (case as_number (dict_get sentiment ''score'' (PNum 0)) of
             Inl e \<Rightarrow> Inl e
           | Inr score \<Rightarrow>
               Inr [''article_id'' \<mapsto> PStr (article_id title content),
                    ''analyzed_at'' \<mapsto> PStr (now_isoformat w),
                    ''sentiment'' \<mapsto> PDict sentiment,
                    ''classification'' \<mapsto> PDict classification,
                    ''summarization'' \<mapsto> PDict summarization,
                    ''trending_score'' \<mapsto> PNum (trending_score title score),
                    ''total_cost'' \<mapsto> PNum (c1 + c2 + c3),
                    ''word_count'' \<mapsto> PNum (real (length (py_split content))),
                    ''reading_time'' \<mapsto> PStr (reading_time content)])
      | other \<Rightarrow> Inl (Exc TypeError ''unsupported operand type'')))))"
  using assms by (simp add: analyze_article_def)

lemma analyze_article_result:
  assumes "analyze_article w self article inc = Inr analysis"
  shows "\<exists>title content sentiment score.
           chosen_texts article inc = (PStr title, PStr content)
         \<and> fst (analyze_sentiment w self (title @ [nl] @ content)) = Inr sentiment
         \<and> as_number (dict_get sentiment ''score'' (PNum 0)) = Inr score
         \<and> analysis ''sentiment'' = Some (PDict sentiment)
         \<and> analysis ''trending_score'' = Some (PNum (trending_score title score))
         \<and> analysis ''error'' = None
         \<and> list_all (\<lambda>k. analysis k \<noteq> None) analysis_keys"
proof -
  from analyze_article_strings [OF assms] obtain title content
    where texts: "chosen_texts article inc = (PStr title, PStr content)" by blast
  from assms show ?thesis
    unfolding analyze_article_on_strings [OF texts]
    by (auto simp: texts analysis_keys_def split: sum.splits prod.splits)
qed

lemma failing_world_analyze_article:
  assumes "chosen_texts article inc = (PStr title, PStr content)"
  shows "\<exists>analysis. analyze_article failing_world self article inc = Inr analysis
           \<and> analysis ''sentiment''
               = Some (PDict (sentiment_fallback (Exc ServiceError ''Request timed out'')))"
  by (simp add: analyze_article_on_strings [OF assms] failing_world_sub_tasks fallback_costs
      dict_get_def sentiment_fallback_def)

subsection \<open>The article identifier\<close>

lemma analyze_article_identifier:
  assumes "analyze_article w self article inc = Inr analysis"
    and texts: "chosen_texts article inc = (PStr title, PStr content)"
  shows "analysis ''article_id'' = Some (PStr (article_id title content))"
  using assms(1) unfolding analyze_article_on_strings [OF texts]
  by (auto split: sum.splits prod.splits)

text \<open>
  C8 as stated fails: the hash is taken over the title and the text joined with nothing
  between them, so distinct pairs with the same joined text always share an identifier.
\<close>

theorem article_id_counterexample:
  "article_id ''ab'' ''c'' = article_id ''a'' ''bc'' \<and> (''ab'', ''c'') \<noteq> (''a'', ''bc'')"
  by (simp add: article_id_def article_text_def)

text \<open>
  C8, amended. The identifier that \<open>analyze_article\<close> reports is the first 16 hexadecimal
  digits of the SHA-256 digest of the title joined with the chosen analysis text. It is a
  function of that joined text alone, and two identifiers are equal exactly when the two
  digests agree on their first 64 bits (their first two words): equal joined texts give
  equal identifiers, texts with different digest prefixes give different identifiers, and
  changing one of the two fields while the other is kept changes the joined text that is
  hashed.
\<close>

theorem article_id_of_joined_text:
  "(analyze_article w self article inc = Inr analysis \<longrightarrow>
      (\<exists>t c. chosen_texts article inc = (PStr t, PStr c)
            \<and> analysis ''article_id'' = Some (PStr (take 16 (sha256_hexdigest (t @ c))))))
   \<and> article_id title content = take 16 (sha256_hexdigest (title @ content))
   \<and> length (article_id title content) = 16
   \<and> set (article_id title content) \<subseteq> set ''0123456789abcdef''
   \<and> (article_id title content = article_id title' content'
      \<longleftrightarrow> take 2 (sha256_digest (title @ content)) = take 2 (sha256_digest (title' @ content')))
   \<and> (title @ content = title' @ content'
      \<longrightarrow> article_id title content = article_id title' content')
   \<and> (title \<noteq> title' \<longrightarrow> title @ content \<noteq> title' @ content)
   \<and> (content \<noteq> content' \<longrightarrow> title @ content \<noteq> title @ content')"
proof (intro conjI impI)
  assume run: "analyze_article w self article inc = Inr analysis"
  from analyze_article_strings [OF run] obtain t c
    where texts: "chosen_texts article inc = (PStr t, PStr c)" by blast
  from analyze_article_identifier [OF run texts]
  have "analysis ''article_id'' = Some (PStr (take 16 (sha256_hexdigest (t @ c))))"
    by (simp only: article_id_def article_text_def)
  with texts
  show "\<exists>t c. chosen_texts article inc = (PStr t, PStr c)
            \<and> analysis ''article_id'' = Some (PStr (take 16 (sha256_hexdigest (t @ c))))"
    by blast
next
  show "article_id title content = take 16 (sha256_hexdigest (title @ content))"
    by (simp only: article_id_def article_text_def)
next
  show "length (article_id title content) = 16"
    by (simp only: article_id_def length_sha256_prefix)
next
  show "set (article_id title content) \<subseteq> set ''0123456789abcdef''"
    by (simp only: article_id_def sha256_prefix_range)
next
  show "article_id title content = article_id title' content'
      \<longleftrightarrow> take 2 (sha256_digest (title @ content)) = take 2 (sha256_digest (title' @ content'))"
    by (simp only: article_id_def article_text_def sha256_prefix_eq_iff)
next
  assume "title @ content = title' @ content'"
  then show "article_id title content = article_id title' content'"
    by (simp only: article_id_def article_text_def)
next
  assume "title \<noteq> title'"
  then show "title @ content \<noteq> title' @ content" by simp
next
  assume "content \<noteq> content'"
  then show "title @ content \<noteq> title @ content'" by simp
qed

text \<open>The identifiers of four short texts, as \<open>hashlib\<close> prints them.\<close>

lemma identifier_Rates_rise_twice:
  "take 16 (sha256_hexdigest ''Rates riseRates rise'') =
     ''12168fdd21e5eec4''"
proof -
  have short: "length ''Rates riseRates rise'' < 32" by simp
  have words: "be_words (sha256_pad (map of_char ''Rates riseRates rise'')) =
     [1382118501, 1931506281, 1936020065, 1952805664, 1919513445, 2147483648,
      0, 0, 0, 0, 0, 0,
      0, 0, 0, 160]"
    by (simp add: sha256_pad_short replicate_numeral)
  have rounds: "map2 (+) sha256_h0 (foldl sha256_round sha256_h0 (zip sha256_k (sha256_schedule 48
     [1382118501, 1931506281, 1936020065, 1952805664, 1919513445, 2147483648,
      0, 0, 0, 0, 0, 0,
      0, 0, 0, 160]))) =
     [303468509, 568716996, 1473101906, 1980214975,
      144293185, 2438777259, 2124211619, 1644887821]"
    by code_simp
  have "sha256_digest ''Rates riseRates rise'' =
     [303468509, 568716996, 1473101906, 1980214975,
      144293185, 2438777259, 2124211619, 1644887821]"
    by (simp only: sha256_digest_short [OF short] words rounds)
  then show ?thesis
    by (simp add: sha256_hexdigest_def hex_word_def upt_8 hex_digit_simps)
qed

lemma identifier_Ratesrise:
  "take 16 (sha256_hexdigest ''Ratesrise'') =
     ''fae957af468546bf''"
proof -
  have short: "length ''Ratesrise'' < 32" by simp
  have words: "be_words (sha256_pad (map of_char ''Ratesrise'')) =
     [1382118501, 1936877939, 1702887424, 0, 0, 0,
      0, 0, 0, 0, 0, 0,
      0, 0, 0, 72]"
    by (simp add: sha256_pad_short replicate_numeral)
  have rounds: "map2 (+) sha256_h0 (foldl sha256_round sha256_h0 (zip sha256_k (sha256_schedule 48
     [1382118501, 1936877939, 1702887424, 0, 0, 0,
      0, 0, 0, 0, 0, 0,
      0, 0, 0, 72]))) =
     [4209596335, 1183139519, 4213113780, 3189326263,
      862890397, 3530501991, 48549593, 2607437364]"
    by code_simp
  have "sha256_digest ''Ratesrise'' =
     [4209596335, 1183139519, 4213113780, 3189326263,
      862890397, 3530501991, 48549593, 2607437364]"
    by (simp only: sha256_digest_short [OF short] words rounds)
  then show ?thesis
    by (simp add: sha256_hexdigest_def hex_word_def upt_8 hex_digit_simps)
qed

lemma identifier_Raterise:
  "take 16 (sha256_hexdigest ''Raterise'') =
     ''1b671bc46da68959''"
proof -
  have short: "length ''Raterise'' < 32" by simp
  have words: "be_words (sha256_pad (map of_char ''Raterise'')) =
     [1382118501, 1919513445, 2147483648, 0, 0, 0,
      0, 0, 0, 0, 0, 0,
      0, 0, 0, 64]"
    by (simp add: sha256_pad_short replicate_numeral)
  have rounds: "map2 (+) sha256_h0 (foldl sha256_round sha256_h0 (zip sha256_k (sha256_schedule 48
     [1382118501, 1919513445, 2147483648, 0, 0, 0,
      0, 0, 0, 0, 0, 0,
      0, 0, 0, 64]))) =
     [459742148, 1839630681, 366307173, 594157702,
      376230987, 496096015, 2878554327, 742862742]"
    by code_simp
  have "sha256_digest ''Raterise'' =
     [459742148, 1839630681, 366307173, 594157702,
      376230987, 496096015, 2878554327, 742862742]"
    by (simp only: sha256_digest_short [OF short] words rounds)
  then show ?thesis
    by (simp add: sha256_hexdigest_def hex_word_def upt_8 hex_digit_simps)
qed

lemma identifier_Ratesrose:
  "take 16 (sha256_hexdigest ''Ratesrose'') =
     ''843963c666151818''"
proof -
  have short: "length ''Ratesrose'' < 32" by simp
  have words: "be_words (sha256_pad (map of_char ''Ratesrose'')) =
     [1382118501, 1936879475, 1702887424, 0, 0, 0,
      0, 0, 0, 0, 0, 0,
      0, 0, 0, 72]"
    by (simp add: sha256_pad_short replicate_numeral)
  have rounds: "map2 (+) sha256_h0 (foldl sha256_round sha256_h0 (zip sha256_k (sha256_schedule 48
     [1382118501, 1936879475, 1702887424, 0, 0, 0,
      0, 0, 0, 0, 0, 0,
      0, 0, 0, 72]))) =
     [2218353606, 1712658456, 4154834672, 2192977452,
      3350877442, 2175702298, 1039024433, 1559208047]"
    by code_simp
  have "sha256_digest ''Ratesrose'' =
     [2218353606, 1712658456, 4154834672, 2192977452,
      3350877442, 2175702298, 1039024433, 1559208047]"
    by (simp only: sha256_digest_short [OF short] words rounds)
  then show ?thesis
    by (simp add: sha256_hexdigest_def hex_word_def upt_8 hex_digit_simps)
qed

theorem article_id_of_joined_text_witness:
  "(\<exists>analysis.
      analyze_article failing_world example_analyzer unfetched_article True = Inr analysis
      \<and> analysis ''article_id'' = Some (PStr ''12168fdd21e5eec4''))
   \<and> article_id ''Rates'' '' rise'' = article_id ''Rates '' ''rise''
   \<and> article_id ''Rates'' ''rise'' = ''fae957af468546bf''
   \<and> article_id ''Rate'' ''rise'' = ''1b671bc46da68959''
   \<and> article_id ''Rates'' ''rose'' = ''843963c666151818''
   \<and> take 2 (sha256_digest ''Ratesrise'') \<noteq> take 2 (sha256_digest ''Raterise'')
   \<and> take 2 (sha256_digest ''Ratesrise'') \<noteq> take 2 (sha256_digest ''Ratesrose'')"
proof -
  from failing_world_analyze_article [OF chosen_texts_unfetched] obtain analysis where
    run: "analyze_article failing_world example_analyzer unfetched_article True = Inr analysis"
    by blast
  from article_id_of_joined_text
    [of failing_world example_analyzer unfetched_article True analysis]
  have "\<exists>t c. chosen_texts unfetched_article True = (PStr t, PStr c)
            \<and> analysis ''article_id'' = Some (PStr (take 16 (sha256_hexdigest (t @ c))))"
    using run by blast
  then have "analysis ''article_id''
      = Some (PStr (take 16 (sha256_hexdigest (''Rates rise'' @ ''Rates rise''))))"
    by (simp only: chosen_texts_unfetched prod.inject pyval.inject) blast
  then have "analysis ''article_id'' = Some (PStr ''12168fdd21e5eec4'')"
    using identifier_Rates_rise_twice by simp
  with run have first: "\<exists>analysis.
      analyze_article failing_world example_analyzer unfetched_article True = Inr analysis
      \<and> analysis ''article_id'' = Some (PStr ''12168fdd21e5eec4'')"
    by blast
  have "''Rates'' @ '' rise'' = ''Rates '' @ ''rise''" by simp
  with article_id_of_joined_text
    [of w self article inc analysis "''Rates''" "'' rise''" "''Rates ''" "''rise''"]
  have same: "article_id ''Rates'' '' rise'' = article_id ''Rates '' ''rise''"
    by blast
  note title_changed = article_id_of_joined_text
    [of w self article inc analysis "''Rates''" "''rise''" "''Rate''" "''rise''"]
  note body_changed = article_id_of_joined_text
    [of w self article inc analysis "''Rates''" "''rose''" "''Rates''" "''rise''"]
  note other = article_id_of_joined_text
    [of w self article inc analysis "''Rate''" "''rise''" "''Rates''" "''rose''"]
  from title_changed
  have one: "article_id ''Rates'' ''rise'' = take 16 (sha256_hexdigest (''Rates'' @ ''rise''))"
    by blast
  from other
  have two: "article_id ''Rate'' ''rise'' = take 16 (sha256_hexdigest (''Rate'' @ ''rise''))"
    by blast
  from body_changed
  have three: "article_id ''Rates'' ''rose'' = take 16 (sha256_hexdigest (''Rates'' @ ''rose''))"
    by blast
  have ids: "article_id ''Rates'' ''rise'' = ''fae957af468546bf''"
    "article_id ''Rate'' ''rise'' = ''1b671bc46da68959''"
    "article_id ''Rates'' ''rose'' = ''843963c666151818''"
    by (simp_all only: one two three append.simps identifier_Ratesrise identifier_Raterise
        identifier_Ratesrose)
  have differ: "article_id ''Rates'' ''rise'' \<noteq> article_id ''Rate'' ''rise''"
    "article_id ''Rates'' ''rose'' \<noteq> article_id ''Rates'' ''rise''"
    by (simp_all add: ids)
  from title_changed differ(1)
  have "take 2 (sha256_digest (''Rates'' @ ''rise''))
      \<noteq> take 2 (sha256_digest (''Rate'' @ ''rise''))"
    by blast
  then have title: "take 2 (sha256_digest ''Ratesrise'') \<noteq> take 2 (sha256_digest ''Raterise'')"
    by simp
  from body_changed differ(2)
  have "take 2 (sha256_digest (''Rates'' @ ''rose''))
      \<noteq> take 2 (sha256_digest (''Rates'' @ ''rise''))"
    by blast
  then have body: "take 2 (sha256_digest ''Ratesrise'') \<noteq> take 2 (sha256_digest ''Ratesrose'')"
    by (simp add: eq_commute)
  from first same ids title body show ?thesis by (intro conjI) blast+
qed

subsection \<open>The trending score\<close>

lemma trending_score_sum:
  "trending_score title score =
     min (5 / 10
          + (if contains ''breaking'' (py_lower title) \<or> contains ''urgent'' (py_lower title)
             then 3 / 10 else 0)
          + (if \<bar>score\<bar> > 7 / 10 then 2 / 10 else 0)) 1"
  by (simp add: trending_score_def Let_def)

text \<open>
  C9. Whenever \<open>analyze_article\<close> returns, the trending score it reports is 0.5, plus 0.3
  when the lower-cased title contains "breaking" or "urgent", plus 0.2 when the absolute
  sentiment score exceeds 0.7, capped at 1. A title that contains "breaking" in any case
  gives 0.8 with a sentiment of magnitude at most 0.7, and 1 above it.
\<close>

theorem analyze_article_trending_score:
  assumes "analyze_article w self article inc = Inr analysis"
  shows "\<exists>title sentiment score.
           dict_get article ''title'' (PStr '''') = PStr title
         \<and> analysis ''sentiment'' = Some (PDict sentiment)
         \<and> as_number (dict_get sentiment ''score'' (PNum 0)) = Inr score
         \<and> analysis ''trending_score'' =
             Some (PNum (min (5 / 10
                   + (if contains ''breaking'' (py_lower title)
                         \<or> contains ''urgent'' (py_lower title) then 3 / 10 else 0)
                   + (if \<bar>score\<bar> > 7 / 10 then 2 / 10 else 0)) 1))
         \<and> ((\<exists>a u b. title = a @ u @ b \<and> py_lower u = ''breaking'') \<longrightarrow>
               analysis ''trending_score'' = Some (PNum (if \<bar>score\<bar> > 7 / 10 then 1 else 8 / 10)))"
proof -
  from analyze_article_result [OF assms] obtain title content sentiment score where
    texts: "chosen_texts article inc = (PStr title, PStr content)" and
    score: "as_number (dict_get sentiment ''score'' (PNum 0)) = Inr score" and
    sent: "analysis ''sentiment'' = Some (PDict sentiment)" and
    trend: "analysis ''trending_score'' = Some (PNum (trending_score title score))"
    by blast
  from texts have title: "dict_get article ''title'' (PStr '''') = PStr title"
    by (simp add: chosen_texts_def Let_def)
  have breaking: "trending_score title score = (if \<bar>score\<bar> > 7 / 10 then 1 else 8 / 10)"
    if "\<exists>a u b. title = a @ u @ b \<and> py_lower u = ''breaking''"
  proof -
    from that have "contains ''breaking'' (py_lower title)"
      by (auto intro: contains_any_case)
    then show ?thesis by (simp add: trending_score_sum)
  qed
  from title sent score trend breaking show ?thesis
    by (auto simp: trending_score_sum)
qed

lemma chosen_texts_breaking:
  "chosen_texts breaking_article True =
     (PStr ''BREAKING: rates rise'', PStr ''The central bank raised rates today.'')"
  by (simp add: chosen_texts_def breaking_article_def dict_get_def Let_def)

lemma py_lower_BREAKING: "py_lower ''BREAKING'' = ''breaking''"
  by code_simp

lemma answering_world_analyze_article:
  assumes "chosen_texts article inc = (PStr title, PStr content)"
  shows "\<exists>analysis sentiment. analyze_article answering_world self article inc = Inr analysis
           \<and> analysis ''sentiment'' = Some (PDict sentiment)
           \<and> sentiment ''score'' = Some (PNum (9 / 10))"
  by (simp add: analyze_article_on_strings [OF assms] analyze_sentiment_cases
      classify_topics_cases summarize_article_cases answering_world_moderation
      answering_world_completion truncate_text_def example_encode dict_get_def)

theorem analyze_article_trending_score_witness:
  "(\<exists>analysis. analyze_article failing_world example_analyzer breaking_article True = Inr analysis
      \<and> analysis ''trending_score'' = Some (PNum (8 / 10)))
   \<and> (\<exists>analysis. analyze_article answering_world example_analyzer breaking_article True
        = Inr analysis
      \<and> analysis ''trending_score'' = Some (PNum 1))"
proof (intro conjI)
  have marker: "\<exists>a u b. ''BREAKING: rates rise'' = a @ u @ b \<and> py_lower u = ''breaking''"
    using py_lower_BREAKING
    by (intro exI [of _ "[]"] exI [of _ "''BREAKING''"] exI [of _ "'': rates rise''"]) simp
  have title_eq: "title = ''BREAKING: rates rise''"
    if "dict_get breaking_article ''title'' (PStr '''') = PStr title" for title
    using that by (simp add: breaking_article_def dict_get_def)
  show "\<exists>analysis.
      analyze_article failing_world example_analyzer breaking_article True = Inr analysis
      \<and> analysis ''trending_score'' = Some (PNum (8 / 10))"
  proof -
    from failing_world_analyze_article [OF chosen_texts_breaking] obtain analysis where
      run: "analyze_article failing_world example_analyzer breaking_article True = Inr analysis"
      and sent: "analysis ''sentiment''
        = Some (PDict (sentiment_fallback (Exc ServiceError ''Request timed out'')))"
      by blast
    from analyze_article_trending_score [OF run] obtain title s score where
      t: "dict_get breaking_article ''title'' (PStr '''') = PStr title" and
      s: "analysis ''sentiment'' = Some (PDict s)" and
      sc: "as_number (dict_get s ''score'' (PNum 0)) = Inr score" and
      imp: "(\<exists>a u b. title = a @ u @ b \<and> py_lower u = ''breaking'') \<longrightarrow>
            analysis ''trending_score'' = Some (PNum (if \<bar>score\<bar> > 7 / 10 then 1 else 8 / 10))"
      by blast
    from s sent have "s = sentiment_fallback (Exc ServiceError ''Request timed out'')" by simp
    with sc have "score = 0" by (simp add: sentiment_fallback_def dict_get_def)
    with imp marker title_eq [OF t]
    have "analysis ''trending_score'' = Some (PNum (8 / 10))" by simp
    with run show ?thesis by blast
  qed
  show "\<exists>analysis.
      analyze_article answering_world example_analyzer breaking_article True = Inr analysis
      \<and> analysis ''trending_score'' = Some (PNum 1)"
  proof -
    from answering_world_analyze_article [OF chosen_texts_breaking]
    obtain analysis sentiment where
      run: "analyze_article answering_world example_analyzer breaking_article True = Inr analysis"
      and sent: "analysis ''sentiment'' = Some (PDict sentiment)"
      and score: "sentiment ''score'' = Some (PNum (9 / 10))"
      by blast
    from analyze_article_trending_score [OF run] obtain title s score where
      t: "dict_get breaking_article ''title'' (PStr '''') = PStr title" and
      s: "analysis ''sentiment'' = Some (PDict s)" and
      sc: "as_number (dict_get s ''score'' (PNum 0)) = Inr score" and
      imp: "(\<exists>a u b. title = a @ u @ b \<and> py_lower u = ''breaking'') \<longrightarrow>
            analysis ''trending_score'' = Some (PNum (if \<bar>score\<bar> > 7 / 10 then 1 else 8 / 10))"
      by blast
    from s sent have "s = sentiment" by simp
    with sc score have "score = 9 / 10" by (simp add: dict_get_def)
    with imp marker title_eq [OF t]
    have "analysis ''trending_score'' = Some (PNum 1)" by simp
    with run show ?thesis by blast
  qed
qed
section \<open>The batch\<close>

lemma analyze_with_limit_eq:
  "analyze_with_limit w self inc article =
     Inr (article(''analysis'' \<mapsto> PDict (attached_analysis w self inc article)))"
  by (simp add: analyze_with_limit_def attached_analysis_def split: sum.split)

lemma successes_of_map_Inr: "[r. Inr r \<leftarrow> map (\<lambda>a. Inr (f a)) xs] = map f xs"
  by (induction xs) simp_all

lemma batch_analyze_eq:
  assumes "0 < max_concurrent"
  shows "batch_analyze w self articles max_concurrent inc =
     Some (Inr (map (\<lambda>a. a(''analysis'' \<mapsto> PDict (attached_analysis w self inc a))) articles))"
proof -
  have "analyze_with_limit w self inc =
      (\<lambda>a. Inr (a(''analysis'' \<mapsto> PDict (attached_analysis w self inc a))))"
    by (rule ext) (rule analyze_with_limit_eq)
  then have "[r. Inr r \<leftarrow> map (analyze_with_limit w self inc) articles] =
      map (\<lambda>a. a(''analysis'' \<mapsto> PDict (attached_analysis w self inc a))) articles"
    by (simp only: successes_of_map_Inr)
  with assms show ?thesis
    by (simp only: batch_analyze_def Let_def) simp
qed

lemma error_marked_update:
  "error_marked (article(''analysis'' \<mapsto> PDict a)) \<longleftrightarrow> a ''error'' \<noteq> None"
  by (simp add: error_marked_def)

lemma complete_analysis_update:
  "complete_analysis (article(''analysis'' \<mapsto> PDict a)) \<longleftrightarrow>
     list_all (\<lambda>k. a k \<noteq> None) analysis_keys \<and> a ''error'' = None"
  by (simp add: complete_analysis_def)

lemma attached_analysis_failed:
  assumes "analyze_article w self article inc = Inl e"
  shows "attached_analysis w self inc article = error_analysis w e"
  using assms by (simp add: attached_analysis_def)

lemma error_analysis_keys:
  "error_analysis w e ''error'' = Some (PStr (str_exc e))"
  "error_analysis w e ''total_cost'' = Some (PNum 0)"
  "\<not> list_all (\<lambda>k. error_analysis w e k \<noteq> None) analysis_keys"
  by (simp_all add: error_analysis_def analysis_keys_def)

lemma attached_analysis_succeeded:
  assumes "analyze_article w self article inc = Inr analysis"
  shows "attached_analysis w self inc article = analysis"
    and "analysis ''error'' = None"
    and "list_all (\<lambda>k. analysis k \<noteq> None) analysis_keys"
proof -
  show "attached_analysis w self inc article = analysis"
    using assms by (simp add: attached_analysis_def)
  from analyze_article_result [OF assms]
  show "analysis ''error'' = None" and "list_all (\<lambda>k. analysis k \<noteq> None) analysis_keys"
    by blast+
qed

lemma error_marked_iff:
  "error_marked (article(''analysis'' \<mapsto> PDict (attached_analysis w self inc article)))
     \<longleftrightarrow> isl (analyze_article w self article inc)"
proof (cases "analyze_article w self article inc")
  case (Inl e)
  then show ?thesis
    by (simp add: error_marked_update attached_analysis_failed error_analysis_keys)
next
  case (Inr analysis)
  from attached_analysis_succeeded [OF this] Inr show ?thesis
    by (simp add: error_marked_update)
qed

lemma complete_analysis_iff:
  "complete_analysis (article(''analysis'' \<mapsto> PDict (attached_analysis w self inc article)))
     \<longleftrightarrow> \<not> isl (analyze_article w self article inc)"
proof (cases "analyze_article w self article inc")
  case (Inl e)
  with error_analysis_keys(3) [of w e] show ?thesis
    by (simp add: complete_analysis_update attached_analysis_failed)
next
  case (Inr analysis)
  from attached_analysis_succeeded [OF this] Inr show ?thesis
    by (simp add: complete_analysis_update)
qed

lemma count_complement:
  "length (filter (\<lambda>x. \<not> P x) xs) = length xs - length (filter P xs)"
  using sum_length_filter_compl [of P xs] by simp

text \<open>
  C2. With a positive concurrency bound \<open>batch_analyze\<close> returns, without raising, one
  record per input article, in order: the record of an article whose analysis raised
  carries the error marker (the exception's message) with total cost 0, every other
  record carries the complete analysis. So when the analysis raises for exactly one
  article, exactly one record is error-marked and the other N - 1 are complete.
\<close>

theorem batch_analyze_isolation:
  assumes "0 < max_concurrent"
  shows "\<exists>records.
      batch_analyze w self articles max_concurrent inc = Some (Inr records)
    \<and> length records = length articles
    \<and> (\<forall>i < length articles.
          case analyze_article w self (articles ! i) inc of
            Inl e \<Rightarrow>
              error_marked (records ! i) \<and> \<not> complete_analysis (records ! i)
              \<and> (\<exists>a. (records ! i) ''analysis'' = Some (PDict a)
                     \<and> a ''error'' = Some (PStr (str_exc e))
                     \<and> a ''total_cost'' = Some (PNum 0))
          | Inr analysis \<Rightarrow>
              (records ! i) ''analysis'' = Some (PDict analysis)
              \<and> complete_analysis (records ! i) \<and> \<not> error_marked (records ! i))
    \<and> (length (filter (\<lambda>a. isl (analyze_article w self a inc)) articles) = 1 \<longrightarrow>
          length (filter error_marked records) = 1
        \<and> length (filter complete_analysis records) = length articles - 1)"
proof -
  let ?attach = "\<lambda>a. a(''analysis'' \<mapsto> PDict (attached_analysis w self inc a))"
  let ?records = "map ?attach articles"
  have run: "batch_analyze w self articles max_concurrent inc = Some (Inr ?records)"
    using assms by (rule batch_analyze_eq)
  have each: "case analyze_article w self (articles ! i) inc of
            Inl e \<Rightarrow>
              error_marked (?records ! i) \<and> \<not> complete_analysis (?records ! i)
              \<and> (\<exists>a. (?records ! i) ''analysis'' = Some (PDict a)
                     \<and> a ''error'' = Some (PStr (str_exc e))
                     \<and> a ''total_cost'' = Some (PNum 0))
          | Inr analysis \<Rightarrow>
              (?records ! i) ''analysis'' = Some (PDict analysis)
              \<and> complete_analysis (?records ! i) \<and> \<not> error_marked (?records ! i)"
    if i: "i < length articles" for i
  proof -
    have nth_record: "?records ! i = ?attach (articles ! i)"
      using i by simp
    have marked: "error_marked (?records ! i) \<longleftrightarrow> isl (analyze_article w self (articles ! i) inc)"
      unfolding nth_record by (rule error_marked_iff)
    have complete: "complete_analysis (?records ! i)
        \<longleftrightarrow> \<not> isl (analyze_article w self (articles ! i) inc)"
      unfolding nth_record by (rule complete_analysis_iff)
    have stored: "(?records ! i) ''analysis''
        = Some (PDict (attached_analysis w self inc (articles ! i)))"
      unfolding nth_record by simp
    show ?thesis
    proof (cases "analyze_article w self (articles ! i) inc")
      case (Inl e)
      then show ?thesis
        unfolding marked complete stored
        by (simp add: attached_analysis_failed error_analysis_keys)
    next
      case (Inr analysis)
      then show ?thesis
        unfolding marked complete stored
        by (simp add: attached_analysis_succeeded(1))
    qed
  qed
  have marked: "filter error_marked ?records =
      map ?attach (filter (\<lambda>a. isl (analyze_article w self a inc)) articles)"
    by (simp add: filter_map comp_def error_marked_iff)
  have complete: "filter complete_analysis ?records =
      map ?attach (filter (\<lambda>a. \<not> isl (analyze_article w self a inc)) articles)"
    by (simp add: filter_map comp_def complete_analysis_iff)
  have counts: "length (filter error_marked ?records) = 1
        \<and> length (filter complete_analysis ?records) = length articles - 1"
    if "length (filter (\<lambda>a. isl (analyze_article w self a inc)) articles) = 1"
    using that by (simp add: marked complete count_complement)
  show ?thesis
  proof (intro exI [of _ ?records] conjI allI impI)
    show "batch_analyze w self articles max_concurrent inc = Some (Inr ?records)"
      by (rule run)
    show "length ?records = length articles" by simp
    show "case analyze_article w self (articles ! i) inc of
            Inl e \<Rightarrow>
              error_marked (?records ! i) \<and> \<not> complete_analysis (?records ! i)
              \<and> (\<exists>a. (?records ! i) ''analysis'' = Some (PDict a)
                     \<and> a ''error'' = Some (PStr (str_exc e))
                     \<and> a ''total_cost'' = Some (PNum 0))
          | Inr analysis \<Rightarrow>
              (?records ! i) ''analysis'' = Some (PDict analysis)
              \<and> complete_analysis (?records ! i) \<and> \<not> error_marked (?records ! i)"
      if "i < length articles" for i
      using that by (rule each)
    show "length (filter error_marked ?records) = 1"
      if "length (filter (\<lambda>a. isl (analyze_article w self a inc)) articles) = 1"
      using counts [OF that] by simp
    show "length (filter complete_analysis ?records) = length articles - 1"
      if "length (filter (\<lambda>a. isl (analyze_article w self a inc)) articles) = 1"
      using counts [OF that] by simp
  qed
qed

text \<open>
  C10. The record returned for an article is that article with the key \<open>analysis\<close> set:
  every other key has the value it had in the input, whether the analysis succeeded or
  failed.
\<close>

theorem batch_analyze_frame:
  assumes "0 < max_concurrent"
  shows "\<exists>records.
      batch_analyze w self articles max_concurrent inc = Some (Inr records)
    \<and> length records = length articles
    \<and> (\<forall>i < length articles.
          (\<forall>k. k \<noteq> ''analysis'' \<longrightarrow> (records ! i) k = (articles ! i) k)
          \<and> (\<exists>a. (records ! i) ''analysis'' = Some (PDict a)))"
  by (simp add: batch_analyze_eq [OF assms])

lemma untitled_article_raises: "isl (analyze_article w self untitled_article True)"
proof (cases "analyze_article w self untitled_article True")
  case (Inl e)
  then show ?thesis by simp
next
  case (Inr analysis)
  from analyze_article_strings [OF this] show ?thesis
    by (simp add: chosen_texts_def untitled_article_def unfetched_article_def dict_get_def
        Let_def)
qed

lemma failing_world_returns:
  "\<not> isl (analyze_article failing_world self unfetched_article True)"
  "\<not> isl (analyze_article failing_world self breaking_article True)"
  using failing_world_analyze_article [OF chosen_texts_unfetched, of self]
    failing_world_analyze_article [OF chosen_texts_breaking, of self]
  by auto

theorem batch_analyze_isolation_witness:
  "\<exists>records.
      batch_analyze failing_world example_analyzer
        [unfetched_article, untitled_article, breaking_article] 3 True = Some (Inr records)
    \<and> length records = 3
    \<and> length (filter error_marked records) = 1
    \<and> length (filter complete_analysis records) = 2
    \<and> complete_analysis (records ! 0) \<and> error_marked (records ! 1)
    \<and> complete_analysis (records ! 2)"
proof -
  let ?batch = "[unfetched_article, untitled_article, breaking_article]"
  have one: "length (filter (\<lambda>a. isl (analyze_article failing_world example_analyzer a True))
      ?batch) = 1"
    by (simp add: untitled_article_raises failing_world_returns)
  from batch_analyze_isolation [of 3 failing_world example_analyzer ?batch True]
  obtain records where
    run: "batch_analyze failing_world example_analyzer ?batch 3 True = Some (Inr records)" and
    len: "length records = length ?batch" and
    each: "\<forall>i < length ?batch.
          case analyze_article failing_world example_analyzer (?batch ! i) True of
            Inl e \<Rightarrow>
              error_marked (records ! i) \<and> \<not> complete_analysis (records ! i)
              \<and> (\<exists>a. (records ! i) ''analysis'' = Some (PDict a)
                     \<and> a ''error'' = Some (PStr (str_exc e))
                     \<and> a ''total_cost'' = Some (PNum 0))
          | Inr analysis \<Rightarrow>
              (records ! i) ''analysis'' = Some (PDict analysis)
              \<and> complete_analysis (records ! i) \<and> \<not> error_marked (records ! i)" and
    counts: "length (filter (\<lambda>a. isl (analyze_article failing_world example_analyzer a True))
        ?batch) = 1 \<longrightarrow>
          length (filter error_marked records) = 1
        \<and> length (filter complete_analysis records) = length ?batch - 1"
    by auto
  from each [rule_format, of 0] failing_world_returns(1) [of example_analyzer]
  have r0: "complete_analysis (records ! 0)"
    by (auto split: sum.splits)
  from each [rule_format, of 1] untitled_article_raises [of failing_world example_analyzer]
  have r1: "error_marked (records ! 1)"
    by (auto split: sum.splits)
  from each [rule_format, of 2] failing_world_returns(2) [of example_analyzer]
  have r2: "complete_analysis (records ! 2)"
    by (auto split: sum.splits)
  from run len counts one r0 r1 r2 show ?thesis by simp
qed

theorem batch_analyze_frame_witness:
  "\<exists>records.
      batch_analyze failing_world example_analyzer [unfetched_article, untitled_article] 3 True
        = Some (Inr records)
    \<and> length records = 2
    \<and> (records ! 0) ''url'' = Some (PStr ''https://example.org/a'')
    \<and> (records ! 0) ''content'' = Some PNone
    \<and> (records ! 1) ''title'' = Some PNone
    \<and> (records ! 1) ''summary'' = Some (PStr ''The bank raised rates.'')
    \<and> (records ! 1) ''published_at'' = None"
proof -
  let ?batch = "[unfetched_article, untitled_article]"
  from batch_analyze_frame [of 3 failing_world example_analyzer ?batch True]
  obtain records where
    run: "batch_analyze failing_world example_analyzer ?batch 3 True = Some (Inr records)" and
    len: "length records = length ?batch" and
    frame: "\<forall>i < length ?batch. (\<forall>k. k \<noteq> ''analysis'' \<longrightarrow> (records ! i) k = (?batch ! i) k)
          \<and> (\<exists>a. (records ! i) ''analysis'' = Some (PDict a))"
    by auto
  from frame [rule_format, of 0] have r0: "\<forall>k. k \<noteq> ''analysis'' \<longrightarrow>
      (records ! 0) k = unfetched_article k" by simp
  from frame [rule_format, of 1] have r1: "\<forall>k. k \<noteq> ''analysis'' \<longrightarrow>
      (records ! 1) k = untitled_article k" by simp
  from run len r0 r1 show ?thesis
    by (simp add: untitled_article_def unfetched_article_def)
qed

end
